theory Spec2Isabelle
  imports Complex_Main
begin

section \<open>Colors, errors and the color library\<close>

text \<open>
  A color of the library is an object with a \<open>mode\<close> tag, three channels named after the
  mode (\<open>r g b\<close>, \<open>l c h\<close>, \<open>l a b\<close>, \<open>h s l\<close>, \<open>x y z\<close>) and an optional \<open>alpha\<close>. The
  record keeps the channels by position; the getters below read a channel by its name,
  and give \<open>None\<close> (JavaScript's \<open>undefined\<close>) on a color whose mode has no such
  channel. Numbers are real numbers: the special values of IEEE doubles (NaN, the
  infinities, signed zero) and rounding error are outside this model, except that a
  computation on an undefined value, which yields NaN in the source, is \<open>None\<close> here.
\<close>

datatype mode = Rgb | Hsl | Oklch | Oklab | P3 | Xyz65

record color =
  mode :: mode
  ch1 :: "real option"
  ch2 :: "real option"
  ch3 :: "real option"
  alpha :: "real option"

definition get_r :: "color \<Rightarrow> real option" where
  "get_r c = (if mode c = Rgb \<or> mode c = P3 then ch1 c else None)"

definition get_g :: "color \<Rightarrow> real option" where
  "get_g c = (if mode c = Rgb \<or> mode c = P3 then ch2 c else None)"

definition get_b :: "color \<Rightarrow> real option" where
  "get_b c = (if mode c = Rgb \<or> mode c = P3 \<or> mode c = Oklab then ch3 c else None)"

definition get_l :: "color \<Rightarrow> real option" where
  "get_l c = (if mode c = Oklch \<or> mode c = Oklab then ch1 c
              else if mode c = Hsl then ch3 c else None)"

definition get_c :: "color \<Rightarrow> real option" where
  "get_c c = (if mode c = Oklch then ch2 c else None)"

definition get_h :: "color \<Rightarrow> real option" where
  "get_h c = (if mode c = Oklch then ch3 c else if mode c = Hsl then ch1 c else None)"

definition get_a :: "color \<Rightarrow> real option" where
  "get_a c = (if mode c = Oklab then ch2 c else None)"

definition get_s :: "color \<Rightarrow> real option" where
  "get_s c = (if mode c = Hsl then ch2 c else None)"

text \<open>
  A thrown exception is the left summand of the result. \<open>TypeError\<close> is what a method
  call on \<open>undefined\<close> throws, \<open>Error\<close> is the one \<open>throw new Error\<close> of the source, and
  \<open>LibraryError\<close> stands for anything the color library throws.
\<close>

datatype error = TypeError | Error string | LibraryError

definition bindE :: "error + 'a \<Rightarrow> ('a \<Rightarrow> error + 'b) \<Rightarrow> error + 'b" where
  "bindE m f = (case m of Inl e \<Rightarrow> Inl e | Inr v \<Rightarrow> f v)"

text \<open>
  The color library (culori) is not part of the repository: it is a parameter of every
  function of the model. \<open>lib_convert\<close> is the family of its converters and \<open>lib_parse\<close>
  its parser; both may answer null (\<open>None\<close>) and, since the source wraps its calls in
  \<open>try\<close>/\<open>catch\<close>, may throw. \<open>lib_formatRgb\<close> and \<open>lib_formatHex\<close> are the library's
  own serialisers, used by the second screen only.
\<close>

record adapter =
  lib_parse :: "string \<Rightarrow> error + color option"
  lib_convert :: "mode \<Rightarrow> color \<Rightarrow> error + color option"
  lib_formatRgb :: "color \<Rightarrow> error + string"
  lib_formatHex :: "color \<Rightarrow> error + string"

text \<open>
  A converter of the library returns a color of its own model (the library types
  \<open>rgb\<close> as returning an \<open>Rgb\<close>), so the model stamps the target mode on what the
  parameter returns.
\<close>

definition convert :: "adapter \<Rightarrow> mode \<Rightarrow> color \<Rightarrow> error + color option" where
  "convert A m c = bindE (lib_convert A m c) (\<lambda>r. Inr (map_option (\<lambda>d. d\<lparr>mode := m\<rparr>) r))"

definition rgb :: "adapter \<Rightarrow> color \<Rightarrow> error + color option" where
  "rgb A c = convert A Rgb c"

definition oklch :: "adapter \<Rightarrow> color \<Rightarrow> error + color option" where
  "oklch A c = convert A Oklch c"

definition p3 :: "adapter \<Rightarrow> color \<Rightarrow> error + color option" where
  "p3 A c = convert A P3 c"

definition oklab :: "adapter \<Rightarrow> color \<Rightarrow> error + color option" where
  "oklab A c = convert A Oklab c"

definition xyz65 :: "adapter \<Rightarrow> color \<Rightarrow> error + color option" where
  "xyz65 A c = convert A Xyz65 c"

definition hsl :: "adapter \<Rightarrow> color \<Rightarrow> error + color option" where
  "hsl A c = convert A Hsl c"

definition parse :: "adapter \<Rightarrow> string \<Rightarrow> error + color option" where
  "parse A s = lib_parse A s"

text \<open>A converter applied to a null argument answers null without throwing.\<close>

definition rgb_nullable :: "adapter \<Rightarrow> color option \<Rightarrow> error + color option" where
  "rgb_nullable A c = (case c of None \<Rightarrow> Inr None | Some d \<Rightarrow> rgb A d)"

section \<open>Gamut detection (convert-color.tsx)\<close>

datatype space = SpaceOut | SpaceP3 | SpaceRec2020 | SpaceSrgb

record ColorSpaceResult =
  originalSpace :: space
  fallbackSpace :: space
  p3Values :: "color option"
  rgbValues :: "color option"
  inGamut :: bool
  needsFallback :: bool

definition EPSILON :: real where
  "EPSILON = 1 / 1000000"

text \<open>\<open>const { r = 0 } = color\<close>: an undefined channel reads as 0.\<close>

definition or0 :: "real option \<Rightarrow> real" where
  "or0 x = (case x of None \<Rightarrow> 0 | Some v \<Rightarrow> v)"

definition getProxyColor :: "adapter \<Rightarrow> color \<Rightarrow> error + color option" where
  "getProxyColor A color =
     (if mode color = Oklch \<and> get_l color = Some 1 \<and> get_c color = Some 0 then Inr (Some color)
      else bindE (xyz65 A color) (\<lambda>xyzColor.
        case xyzColor of None \<Rightarrow> Inr None
        | Some xyz \<Rightarrow> bindE (oklch A xyz) (\<lambda>oklchColor.
            case oklchColor of None \<Rightarrow> Inr None
            | Some ok \<Rightarrow> Inr (Some (ok\<lparr>mode := Oklch, alpha := alpha color\<rparr>)))))"

definition inP3Range :: "color \<Rightarrow> real \<Rightarrow> bool" where
  "inP3Range color epsilon =
     (let r = or0 (get_r color); g = or0 (get_g color); b = or0 (get_b color)
      in r \<ge> - epsilon \<and> r \<le> 16 / 10 + epsilon \<and>
         g \<ge> - epsilon \<and> g \<le> 16 / 10 + epsilon \<and>
         b \<ge> - epsilon \<and> b \<le> 16 / 10 + epsilon)"

definition inRgbRange :: "color \<Rightarrow> real \<Rightarrow> bool" where
  "inRgbRange color epsilon =
     (let r = or0 (get_r color); g = or0 (get_g color); b = or0 (get_b color)
      in r \<ge> - epsilon \<and> r \<le> 1 + epsilon \<and>
         g \<ge> - epsilon \<and> g \<le> 1 + epsilon \<and>
         b \<ge> - epsilon \<and> b \<le> 1 + epsilon)"

text \<open>
  \<open>isInGamut\<close> calls itself on \<open>rgb(color)\<close> for a color that is neither \<open>p3\<close> nor
  \<open>rgb\<close>; the converted color has mode \<open>rgb\<close>, so that call takes the \<open>rgb\<close> branch.
\<close>

definition isInGamut :: "adapter \<Rightarrow> color \<Rightarrow> real \<Rightarrow> error + bool" where
  "isInGamut A color epsilon =
     (if mode color = P3 then Inr (inP3Range color epsilon)
      else if mode color = Rgb then Inr (inRgbRange color epsilon)
      else bindE (rgb A color) (\<lambda>rgbColor.
        case rgbColor of None \<Rightarrow> Inr False
        | Some v \<Rightarrow> Inr (inRgbRange v epsilon)))"

text \<open>\<open>x && isInGamut(x)\<close>: a null \<open>x\<close> is falsy and the test is not run.\<close>

definition andInGamut :: "adapter \<Rightarrow> color option \<Rightarrow> error + bool" where
  "andInGamut A x = (case x of None \<Rightarrow> Inr False | Some v \<Rightarrow> isInGamut A v EPSILON)"

text \<open>
  The cache of detection results is keyed by the JSON text of the color, which
  determines the color in this model: the cache is a map from colors. \<open>detectBody\<close> is
  the part of \<open>detectColorSpace\<close> inside \<open>try\<close> after a cache miss; every one of its
  returns stores the result first. The \<open>catch\<close> branch returns without storing.
\<close>

type_synonym cache = "color \<Rightarrow> ColorSpaceResult option"

definition detectBody :: "adapter \<Rightarrow> color \<Rightarrow> error + ColorSpaceResult" where
  "detectBody A color =
     bindE (getProxyColor A color) (\<lambda>proxyColor.
       case proxyColor of
         None \<Rightarrow> Inr \<lparr>originalSpace = SpaceOut, fallbackSpace = SpaceSrgb,
                      p3Values = None, rgbValues = None,
                      inGamut = False, needsFallback = True\<rparr>
       | Some proxy \<Rightarrow>
           bindE (rgb A proxy) (\<lambda>rgbV.
           bindE (andInGamut A rgbV) (\<lambda>inSrgb.
             if inSrgb then
               bindE (p3 A proxy) (\<lambda>p3V.
                 Inr \<lparr>originalSpace = SpaceSrgb, fallbackSpace = SpaceSrgb,
                      p3Values = p3V, rgbValues = rgbV,
                      inGamut = True, needsFallback = False\<rparr>)
             else
               bindE (p3 A proxy) (\<lambda>p3V.
               bindE (andInGamut A p3V) (\<lambda>inP3.
                 if inP3 then
                   Inr \<lparr>originalSpace = SpaceP3, fallbackSpace = SpaceSrgb,
                        p3Values = p3V, rgbValues = rgbV,
                        inGamut = True, needsFallback = True\<rparr>
                 else
                   Inr \<lparr>originalSpace = SpaceOut, fallbackSpace = SpaceSrgb,
                        p3Values = p3V, rgbValues = rgbV,
                        inGamut = False, needsFallback = True\<rparr>)))))"

definition detectCaught :: ColorSpaceResult where
  "detectCaught = \<lparr>originalSpace = SpaceSrgb, fallbackSpace = SpaceSrgb,
                    p3Values = None, rgbValues = None,
                    inGamut = False, needsFallback = True\<rparr>"

definition detectColorSpace :: "adapter \<Rightarrow> cache \<Rightarrow> color \<Rightarrow> ColorSpaceResult \<times> cache" where
  "detectColorSpace A cache color =
     (case cache color of
        Some cached \<Rightarrow> (cached, cache)
      | None \<Rightarrow>
          (case detectBody A color of
             Inr result \<Rightarrow> (result, cache(color \<mapsto> result))
           | Inl e \<Rightarrow> (detectCaught, cache)))"

section \<open>JavaScript built-ins used by the formatters\<close>

text \<open>
  In this section a \<open>real option\<close> is a JavaScript number that may be NaN: \<open>None\<close> is
  the NaN that arithmetic on \<open>undefined\<close> produces.
\<close>

definition digitChar :: "nat \<Rightarrow> char" where
  "digitChar d = ''0123456789abcdef'' ! d"

fun natToString :: "nat \<Rightarrow> nat \<Rightarrow> string" where
  "natToString base n =
     (if base < 2 \<or> n < base then [digitChar n]
      else natToString base (n div base) @ [digitChar (n mod base)])"

declare natToString.simps [simp del]

definition upperChar :: "char \<Rightarrow> char" where
  "upperChar c =
     (case map_of (zip ''abcdefghijklmnopqrstuvwxyz'' ''ABCDEFGHIJKLMNOPQRSTUVWXYZ'') c of
        Some u \<Rightarrow> u
      | None \<Rightarrow> c)"

definition toUpperCase :: "string \<Rightarrow> string" where
  "toUpperCase s = map upperChar s"

definition padStart :: "nat \<Rightarrow> char \<Rightarrow> string \<Rightarrow> string" where
  "padStart n c s = replicate (n - length s) c @ s"

definition padEnd :: "nat \<Rightarrow> char \<Rightarrow> string \<Rightarrow> string" where
  "padEnd n c s = s @ replicate (n - length s) c"

text \<open>\<open>Math.round\<close> rounds to the nearest integer, a tie upwards.\<close>

definition mathRound :: "real \<Rightarrow> int" where
  "mathRound x = \<lfloor>x + 1 / 2\<rfloor>"

text \<open>
  \<open>x.toFixed(f)\<close> for a number below \<open>10^21\<close> in size: the sign of \<open>x\<close>, then the
  integer nearest to \<open>|x| * 10^f\<close> (a tie upwards) written with at least \<open>f + 1\<close>
  digits and a point before the last \<open>f\<close>. NaN gives \<open>NaN\<close>.
\<close>

definition toFixed :: "real \<Rightarrow> nat \<Rightarrow> string" where
  "toFixed x f =
     (let s = (if x < 0 then [CHR ''-''] else []);
          n = nat (mathRound (\<bar>x\<bar> * 10 ^ f));
          m = padStart (f + 1) (CHR ''0'') (natToString 10 n)
      in if f = 0 then s @ m
         else s @ take (length m - f) m @ [CHR ''.''] @ drop (length m - f) m)"

definition toFixedNaN :: "real option \<Rightarrow> nat \<Rightarrow> string" where
  "toFixedNaN x f = (case x of None \<Rightarrow> ''NaN'' | Some v \<Rightarrow> toFixed v f)"

text \<open>\<open>v.toFixed(f)\<close> on a variable that may be \<open>undefined\<close>: that call throws.\<close>

definition toFixedE :: "real option \<Rightarrow> nat \<Rightarrow> error + string" where
  "toFixedE x f = (case x of None \<Rightarrow> Inl TypeError | Some v \<Rightarrow> Inr (toFixed v f))"

text \<open>
  The text of a number that has at most \<open>d\<close> decimals (the quotient of a rounded value
  by a power of ten, or \<open>Number(x.toFixed(d))\<close>): the decimals without trailing zeros.
\<close>

definition stripZeros :: "string \<Rightarrow> string" where
  "stripZeros s =
     (if CHR ''.'' \<in> set s
      then (let t = rev (dropWhile (\<lambda>c. c = CHR ''0'') (rev s))
            in if t \<noteq> [] \<and> last t = CHR ''.'' then butlast t else t)
      else s)"

definition numberToString :: "nat \<Rightarrow> real \<Rightarrow> string" where
  "numberToString d x = (let t = stripZeros (toFixed x d) in if t = ''-0'' then ''0'' else t)"

definition clamp01 :: "real \<Rightarrow> real" where
  "clamp01 v = max 0 (min 1 v)"

text \<open>\<open>Math.round(Math.max(0, Math.min(1, n)) * 255)\<close> as text in base 10 and 16.\<close>

definition byteOf :: "real \<Rightarrow> nat" where
  "byteOf v = nat (mathRound (clamp01 v * 255))"

definition byteText :: "real option \<Rightarrow> string" where
  "byteText v = (case v of None \<Rightarrow> ''NaN'' | Some x \<Rightarrow> natToString 10 (byteOf x))"

definition toHex :: "real option \<Rightarrow> string" where
  "toHex n = toUpperCase (padStart 2 (CHR ''0'')
               (case n of None \<Rightarrow> ''NaN'' | Some x \<Rightarrow> natToString 16 (byteOf x)))"

text \<open>\<open>Math.pow(x, 2.4)\<close>: NaN on a negative base.\<close>

definition pow24 :: "real \<Rightarrow> real option" where
  "pow24 x = (if x < 0 then None else Some (x powr (24 / 10)))"

text \<open>\<open>x % m\<close> on numbers: the remainder has the sign of \<open>x\<close>.\<close>

definition jsRem :: "real \<Rightarrow> real \<Rightarrow> real" where
  "jsRem x m = x - m * of_int (if x / m < 0 then \<lceil>x / m\<rceil> else \<lfloor>x / m\<rfloor>)"

section \<open>Format renderers (convert-color.tsx)\<close>

definition black :: color where
  "black = \<lparr>mode = Rgb, ch1 = Some 0, ch2 = Some 0, ch3 = Some 0, alpha = None\<rparr>"

text \<open>
  Both branches of \<open>formatRGB\<close> end in the same text: the three channels clamped,
  scaled to 255 and rounded, and the alpha with 3 decimals when it is below 1.
\<close>

definition rgbText :: "color \<Rightarrow> string" where
  "rgbText rgbColor =
     (let values = byteText (get_r rgbColor) @ '', '' @ byteText (get_g rgbColor) @ '', ''
                   @ byteText (get_b rgbColor)
      in case alpha rgbColor of
           None \<Rightarrow> ''rgb('' @ values @ '')''
         | Some a \<Rightarrow> if a < 1 then ''rgb('' @ values @ '' / '' @ toFixed a 3 @ '')''
                     else ''rgb('' @ values @ '')'')"

definition formatRGB :: "adapter \<Rightarrow> color \<Rightarrow> error + string" where
  "formatRGB A color =
     (if mode color = Oklch then
        bindE (xyz65 A color) (\<lambda>xyzColor.
          case xyzColor of None \<Rightarrow> Inr ''Invalid RGB''
          | Some xyz \<Rightarrow> bindE (rgb A xyz) (\<lambda>rgbColor.
              case rgbColor of None \<Rightarrow> Inr ''Invalid RGB''
              | Some v \<Rightarrow> Inr (rgbText v)))
      else
        bindE (rgb A color) (\<lambda>rgbColor.
          case rgbColor of None \<Rightarrow> Inr ''Invalid RGB''
          | Some v \<Rightarrow> Inr (rgbText v)))"

definition formatHex :: "adapter \<Rightarrow> color \<Rightarrow> error + string" where
  "formatHex A color =
     bindE (rgb A color) (\<lambda>rgbColor.
       case rgbColor of None \<Rightarrow> Inr ''#000000''
       | Some v \<Rightarrow> Inr (''#'' @ toHex (get_r v) @ toHex (get_g v) @ toHex (get_b v)))"

text \<open>\<open>const { alpha = 1 } = color\<close>: an undefined alpha reads as 1.\<close>

definition alphaOr1 :: "color \<Rightarrow> real" where
  "alphaOr1 c = (case alpha c of None \<Rightarrow> 1 | Some a \<Rightarrow> a)"

definition formatHexRGBA :: "adapter \<Rightarrow> color \<Rightarrow> error + string" where
  "formatHexRGBA A color =
     bindE (rgb A color) (\<lambda>rgbColor.
       case rgbColor of None \<Rightarrow> Inr ''#00000000''
       | Some v \<Rightarrow> Inr (''#'' @ toHex (get_r v) @ toHex (get_g v) @ toHex (get_b v)
                           @ toHex (Some (alphaOr1 v))))"

definition formatP3 :: "adapter \<Rightarrow> color \<Rightarrow> error + string" where
  "formatP3 A color =
     bindE (p3 A color) (\<lambda>p3Color.
       case p3Color of None \<Rightarrow> Inr ''Invalid P3''
       | Some v \<Rightarrow>
           bindE (toFixedE (get_r v) 4) (\<lambda>r.
           bindE (toFixedE (get_g v) 4) (\<lambda>g.
           bindE (toFixedE (get_b v) 4) (\<lambda>b.
             Inr (''color(display-p3 '' @ padEnd 6 (CHR ''0'') r @ '' ''
                  @ padEnd 6 (CHR ''0'') g @ '' '' @ padEnd 6 (CHR ''0'') b @ '')'')))))"

definition oklchText :: "color \<Rightarrow> string" where
  "oklchText oklchColor =
     (let l = or0 (get_l oklchColor); c = or0 (get_c oklchColor); h = or0 (get_h oklchColor);
          lightness = padEnd 5 (CHR ''0'') (toFixed (l * 100) 2);
          chroma = padEnd 6 (CHR ''0'') (toFixed c 4);
          hue = toFixed h 2
      in ''oklch('' @ lightness @ ''% '' @ chroma @ '' '' @ hue @ '')'')"

definition formatOKLCH :: "adapter \<Rightarrow> color \<Rightarrow> error + string" where
  "formatOKLCH A color =
     bindE (if mode color = Oklch then Inr (Some color) else oklch A color) (\<lambda>oklchColor.
       case oklchColor of None \<Rightarrow> Inr ''Invalid OKLCH''
       | Some v \<Rightarrow> Inr (oklchText v))"

text \<open>
  In \<open>formatOKLAB\<close> the lightness is multiplied before \<open>toFixed\<close> (NaN when undefined),
  while \<open>a\<close> and \<open>b\<close> are receivers of \<open>toFixed\<close> themselves (a throw when undefined).
\<close>

definition formatOKLAB :: "adapter \<Rightarrow> color \<Rightarrow> error + string" where
  "formatOKLAB A color =
     bindE (oklab A color) (\<lambda>oklabColor.
       case oklabColor of None \<Rightarrow> Inr ''Invalid OKLAB''
       | Some v \<Rightarrow>
           (let lightness = toFixedNaN (map_option (\<lambda>l. l * 100) (get_l v)) 2 in
            bindE (toFixedE (get_a v) 2) (\<lambda>aValue.
            bindE (toFixedE (get_b v) 1) (\<lambda>bValue.
              Inr (''oklab('' @ lightness @ ''% '' @ aValue @ '' '' @ bValue @ '')'')))))"

text \<open>The local \<open>toLinear\<close> of \<open>formatLinearRGB\<close>.\<close>

definition formatLinearRGB_toLinear :: "real option \<Rightarrow> real option" where
  "formatLinearRGB_toLinear v =
     (case v of None \<Rightarrow> None
      | Some x \<Rightarrow> if \<bar>x\<bar> < 4045 / 100000 then Some (x / (1292 / 100))
                  else pow24 ((x + 55 / 1000) / (1055 / 1000)))"

definition formatValue5 :: "real option \<Rightarrow> string" where
  "formatValue5 v = padEnd 7 (CHR ''0'') (toFixedNaN v 5)"

definition formatLinearRGB :: "adapter \<Rightarrow> color \<Rightarrow> error + string" where
  "formatLinearRGB A color =
     bindE (rgb A color) (\<lambda>rgbColor.
       case rgbColor of None \<Rightarrow> Inr ''Invalid Linear RGB''
       | Some v \<Rightarrow>
           if (case get_g v of None \<Rightarrow> False | Some g \<Rightarrow> g > 9 / 10)
           then Inr ''vec(-0.10584, 0.96562, -0.07085, 1)''
           else Inr (''vec('' @ formatValue5 (formatLinearRGB_toLinear (get_r v)) @ '', ''
                     @ formatValue5 (formatLinearRGB_toLinear (get_g v)) @ '', ''
                     @ formatValue5 (formatLinearRGB_toLinear (get_b v)) @ '', ''
                     @ formatValue5 (Some (alphaOr1 v)) @ '')''))"

definition clamp16 :: "real option \<Rightarrow> real option" where
  "clamp16 v = map_option (\<lambda>x. max 0 (min (16 / 10) x)) v"

definition isFigmaOrange :: "color \<Rightarrow> bool" where
  "isFigmaOrange color =
     (mode color = P3 \<and>
      (case get_r color of None \<Rightarrow> False | Some r \<Rightarrow> \<bar>r - 1\<bar> < 1 / 1000) \<and>
      (case get_g color of None \<Rightarrow> False | Some g \<Rightarrow> \<bar>g - 502 / 1000\<bar> < 1 / 1000) \<and>
      (case get_b color of None \<Rightarrow> False | Some b \<Rightarrow> b < 1 / 1000))"

definition formatFigmaP3 :: "adapter \<Rightarrow> color \<Rightarrow> error + string" where
  "formatFigmaP3 A color =
     (if isFigmaOrange color then Inr ''#FF8000FF''
      else bindE (p3 A color) (\<lambda>p3Color.
        case p3Color of None \<Rightarrow> Inr ''#000000FF''
        | Some v \<Rightarrow> Inr (''#'' @ toHex (clamp16 (get_r v)) @ toHex (clamp16 (get_g v))
                            @ toHex (clamp16 (get_b v)) @ toHex (Some (alphaOr1 v)))))"

text \<open>
  \<open>formatHSL\<close> on three defined channels. A zero denominator of the saturation gives
  JavaScript's \<open>Infinity\<close> (the numerator \<open>delta\<close> is positive there); an undefined channel
  makes every number of the text NaN.
\<close>

definition hslNumbers :: "real \<Rightarrow> real \<Rightarrow> real \<Rightarrow> string" where
  "hslNumbers r g b =
     (let mx = max r (max g b); mn = min r (min g b); delta = mx - mn;
          l = (mx + mn) / 2;
          lPercent = numberToString 1 (of_int (mathRound (l * 1000)) / 10)
      in if delta = 0 then ''hsl(0 0% '' @ lPercent @ ''%)''
         else
           (let den = 1 - \<bar>2 * l - 1\<bar>;
                h0 = (if mx = r then jsRem ((g - b) / delta) 6
                      else if mx = g then (b - r) / delta + 2
                      else (r - g) / delta + 4);
                h1 = of_int (mathRound (h0 * 60 * 100)) / 100;
                h = (if h1 < 0 then h1 + 360 else h1);
                sPercent = (if den = 0 then ''Infinity''
                            else numberToString 1 (of_int (mathRound (delta / den * 1000)) / 10))
            in ''hsl('' @ numberToString 2 h @ '' '' @ sPercent @ ''% '' @ lPercent @ ''%)''))"

definition formatHSL :: "adapter \<Rightarrow> color \<Rightarrow> error + string" where
  "formatHSL A color =
     bindE (rgb A color) (\<lambda>rgbColor.
       case rgbColor of None \<Rightarrow> Inr ''Invalid HSL''
       | Some v \<Rightarrow>
           (case (get_r v, get_g v, get_b v) of
              (Some r, Some g, Some b) \<Rightarrow> Inr (hslNumbers r g b)
            | _ \<Rightarrow> Inr ''hsl(NaN NaN% NaN%)''))"

datatype ColorFormat =
  F_rgb | F_hex | F_hex_rgba | F_hsl | F_p3 | F_oklch | F_oklab | F_vec | F_lrgb | F_figmaP3

definition srgbFormats :: "ColorFormat list" where
  "srgbFormats = [F_rgb, F_hex, F_hex_rgba, F_hsl]"

definition isSRGBFormat :: "ColorFormat \<Rightarrow> bool" where
  "isSRGBFormat format = (format \<in> set srgbFormats)"

fun formatForSpace :: "adapter \<Rightarrow> color \<Rightarrow> ColorFormat \<Rightarrow> error + string" where
  "formatForSpace A color F_rgb = formatRGB A color"
| "formatForSpace A color F_hex = formatHex A color"
| "formatForSpace A color F_hex_rgba = formatHexRGBA A color"
| "formatForSpace A color F_hsl = formatHSL A color"
| "formatForSpace A color F_p3 = formatP3 A color"
| "formatForSpace A color F_oklch = formatOKLCH A color"
| "formatForSpace A color F_oklab = formatOKLAB A color"
| "formatForSpace A color F_vec = formatLinearRGB A color"
| "formatForSpace A color F_lrgb = formatLinearRGB A color"
| "formatForSpace A color F_figmaP3 = formatFigmaP3 A color"

section \<open>Gamut mapping and the model conversions of the resolver\<close>

text \<open>
  The loop of \<open>findClosestInGamut\<close>: \<open>l\<close> and \<open>h\<close> stay as they are, \<open>c\<close> and \<open>step\<close>
  change. It leaves with the tested color at the first success, and with the initial
  \<open>lastValidColor\<close> (black) when \<open>step\<close> is no longer above \<open>1e-6\<close>. An undefined chroma
  makes \<open>step\<close> NaN and the loop is not entered.
\<close>

lemma halve_ceiling:
  fixes step :: real
  assumes gt: "1 / 1000000 < step"
  shows "nat \<lceil>step / 2 * 1000000\<rceil> < nat \<lceil>step * 1000000\<rceil>"
proof -
  have a: "1 < step * 1000000" using gt by simp
  then have two: "2 \<le> \<lceil>step * 1000000\<rceil>" by linarith
  then have n2: "(2::real) \<le> of_int \<lceil>step * 1000000\<rceil>" by linarith
  have le: "step * 1000000 \<le> of_int \<lceil>step * 1000000\<rceil>" by (rule le_of_int_ceiling)
  have "step / 2 * 1000000 \<le> of_int \<lceil>step * 1000000\<rceil> - 1" using le n2 by linarith
  then have "step / 2 * 1000000 \<le> of_int (\<lceil>step * 1000000\<rceil> - 1)" by simp
  then have "\<lceil>step / 2 * 1000000\<rceil> \<le> \<lceil>step * 1000000\<rceil> - 1"
    by (simp only: ceiling_le_iff)
  then show ?thesis using two by linarith
qed

function findLoop :: "adapter \<Rightarrow> real option \<Rightarrow> real \<Rightarrow> real option \<Rightarrow> real \<Rightarrow> error + color" where
  "findLoop A l c h step =
     (if step > 1 / 1000000 then
        bindE (oklch A \<lparr>mode = Oklch, ch1 = l, ch2 = Some c, ch3 = h, alpha = None\<rparr>) (\<lambda>testColor.
        bindE (rgb_nullable A testColor) (\<lambda>rgbTest.
          case rgbTest of
            None \<Rightarrow> findLoop A l (c - step) h (step / 2)
          | Some t \<Rightarrow> bindE (isInGamut A t EPSILON) (\<lambda>ok.
              if ok then Inr t else findLoop A l (c - step) h (step / 2))))
      else Inr black)"
  by pat_completeness auto
termination
  by (relation "measure (\<lambda>(A, l, c, h, step). nat \<lceil>step * 1000000\<rceil>)")
     (simp_all only: wf_measure in_measure prod.case halve_ceiling)

declare findLoop.simps [simp del]

definition findClosestInGamut :: "adapter \<Rightarrow> color \<Rightarrow> error + color" where
  "findClosestInGamut A color =
     bindE (oklch A color) (\<lambda>oklchColor.
       case oklchColor of None \<Rightarrow> Inr black
       | Some v \<Rightarrow>
           (case get_c v of None \<Rightarrow> Inr black
            | Some c \<Rightarrow> findLoop A (get_l v) c (get_h v) (c / 2)))"

definition roundTo255 :: "real option \<Rightarrow> real option" where
  "roundTo255 v = map_option (\<lambda>x. of_int (mathRound (clamp01 x * 255)) / 255) v"

definition toRgb :: "adapter \<Rightarrow> color \<Rightarrow> error + color" where
  "toRgb A color =
     bindE (oklch A color) (\<lambda>oklchColor.
       case oklchColor of None \<Rightarrow> Inr black
       | Some ok \<Rightarrow> bindE (rgb A ok) (\<lambda>rgbColor.
           case rgbColor of None \<Rightarrow> Inr black
           | Some v \<Rightarrow> Inr \<lparr>mode = Rgb, ch1 = roundTo255 (get_r v), ch2 = roundTo255 (get_g v),
                            ch3 = roundTo255 (get_b v), alpha = alpha v\<rparr>))"

text \<open>The local \<open>toLinearValue\<close> of \<open>toLinear\<close>; its power has a positive base.\<close>

definition toLinearValue :: "real option \<Rightarrow> real option" where
  "toLinearValue v =
     (case v of None \<Rightarrow> None
      | Some x \<Rightarrow> if x \<le> 3928 / 100000 then Some (x / (1292 / 100))
                  else pow24 ((x + 55 / 1000) / (1055 / 1000)))"

definition toLinear :: "adapter \<Rightarrow> color \<Rightarrow> error + color" where
  "toLinear A color =
     bindE (rgb A color) (\<lambda>rgbColor.
       case rgbColor of None \<Rightarrow> Inr black
       | Some v \<Rightarrow> Inr \<lparr>mode = Rgb, ch1 = toLinearValue (get_r v), ch2 = toLinearValue (get_g v),
                        ch3 = toLinearValue (get_b v), alpha = alpha v\<rparr>)"

section \<open>Fallback resolution (convert-color.tsx)\<close>

record VisibleValue =
  vv_color :: color
  vv_fallback :: string
  vv_real :: string
  vv_space :: space
  vv_fallbackSpace :: space

record ColorCache =
  cache_p3 :: "color option"
  cache_rgb :: "color option"
  cache_oklch :: "color option"

record Warnings =
  unsupported :: bool
  fallback :: bool
  outOfGamut :: bool

record ColorData =
  format :: ColorFormat
  cd_value :: string
  hexValue :: string
  gamut :: space
  cd_fallbackSpace :: space
  warnings :: Warnings

text \<open>\<open>x || color\<close> on a nullable color \<open>x\<close>.\<close>

definition orColor :: "color option \<Rightarrow> color \<Rightarrow> color" where
  "orColor x color = (case x of None \<Rightarrow> color | Some v \<Rightarrow> v)"

text \<open>
  \<open>detectColorSpaceAndFallback\<close> without its logging. The fields of the returned
  object are evaluated in their order, so a throw of the first formatter wins.
\<close>

definition detectColorSpaceAndFallback ::
    "adapter \<Rightarrow> cache \<Rightarrow> color \<Rightarrow> (error + VisibleValue) \<times> cache" where
  "detectColorSpaceAndFallback A cache color =
     (let (spaceResult, cache') = detectColorSpace A cache color;
          rgbOrColor = orColor (rgbValues spaceResult) color;
          p3OrColor = orColor (p3Values spaceResult) color
      in (if originalSpace spaceResult = SpaceSrgb then
            bindE (formatRGB A rgbOrColor) (\<lambda>fb.
            bindE (formatRGB A rgbOrColor) (\<lambda>re.
              Inr \<lparr>vv_color = rgbOrColor, vv_fallback = fb, vv_real = re,
                   vv_space = SpaceSrgb, vv_fallbackSpace = SpaceSrgb\<rparr>))
          else
            bindE (formatRGB A rgbOrColor) (\<lambda>fb.
            bindE (formatP3 A p3OrColor) (\<lambda>re.
              Inr \<lparr>vv_color = p3OrColor, vv_fallback = fb, vv_real = re,
                   vv_space = originalSpace spaceResult,
                   vv_fallbackSpace = fallbackSpace spaceResult\<rparr>)),
          cache'))"

text \<open>
  The \<open>switch\<close> over the four sRGB formats, which occurs twice in \<open>getFallback\<close>;
  \<open>None\<close> is falling out of the switch.
\<close>

definition srgbSwitch :: "adapter \<Rightarrow> color \<Rightarrow> ColorFormat \<Rightarrow> (error + string) option" where
  "srgbSwitch A rgbColor fmt =
     (if fmt = F_rgb then Some (formatRGB A rgbColor)
      else if fmt = F_hex then Some (formatHex A rgbColor)
      else if fmt = F_hex_rgba then Some (formatHexRGBA A rgbColor)
      else if fmt = F_hsl then Some (formatHSL A rgbColor)
      else None)"

text \<open>The part of \<open>getFallback\<close> after the two sRGB blocks.\<close>

definition getFallbackWide ::
    "adapter \<Rightarrow> color \<Rightarrow> ColorFormat \<Rightarrow> ColorCache \<Rightarrow> VisibleValue \<Rightarrow> error + string" where
  "getFallbackWide A color fmt cache result =
     (if fmt = F_figmaP3 then
        (if mode color = P3 then formatFigmaP3 A color
         else (case cache_p3 cache of
                 Some v \<Rightarrow> formatFigmaP3 A v
               | None \<Rightarrow> bindE (p3 A color) (\<lambda>p. formatFigmaP3 A (orColor p color))))
      else if fmt \<in> set [F_oklch, F_oklab, F_p3] then formatForSpace A color fmt
      else if fmt \<in> set [F_vec, F_lrgb] then
        bindE (toLinear A color) (\<lambda>linearColor. formatLinearRGB A linearColor)
      else Inr (vv_fallback result))"

definition getFallbackTry ::
    "adapter \<Rightarrow> color \<Rightarrow> ColorFormat \<Rightarrow> ColorCache \<Rightarrow> VisibleValue \<Rightarrow> error + string" where
  "getFallbackTry A color fmt cache result =
     (case (if isSRGBFormat fmt
            then Option.bind (cache_rgb cache) (\<lambda>rgbColor. srgbSwitch A rgbColor fmt)
            else None) of
        Some r \<Rightarrow> r
      | None \<Rightarrow>
          if isSRGBFormat fmt then
            bindE (toRgb A color) (\<lambda>rgbColor.
              case srgbSwitch A rgbColor fmt of
                Some r \<Rightarrow> r
              | None \<Rightarrow> getFallbackWide A color fmt cache result)
          else getFallbackWide A color fmt cache result)"

definition getFallback ::
    "adapter \<Rightarrow> cache \<Rightarrow> color \<Rightarrow> ColorFormat \<Rightarrow> ColorCache \<Rightarrow> string \<times> cache" where
  "getFallback A cache color fmt cc =
     (let (result, cache') = detectColorSpaceAndFallback A cache color
      in (case bindE result (getFallbackTry A color fmt cc) of
            Inr s \<Rightarrow> s
          | Inl e \<Rightarrow> if fmt = F_hex then ''#000000'' else ''rgb(0, 0, 0)'',
          cache'))"

definition formatCaught :: "ColorFormat \<Rightarrow> ColorData" where
  "formatCaught fmt =
     \<lparr>format = fmt, cd_value = ''Invalid Color'', hexValue = ''#000000'',
      gamut = SpaceOut, cd_fallbackSpace = SpaceSrgb,
      warnings = \<lparr>unsupported = False, fallback = True, outOfGamut = True\<rparr>\<rparr>"

text \<open>
  \<open>formatColor\<close>: the preview color, its hex text and the \<open>oklch\<close> entry of the cache
  argument are computed before \<open>getFallback\<close> is entered; a throw of any of them
  reaches the \<open>catch\<close> of \<open>formatColor\<close>. \<open>detectColorSpace\<close> and \<open>getFallback\<close> have
  handlers of their own and never throw. What the toast shows is not modelled.
\<close>

definition formatPreview :: "adapter \<Rightarrow> color \<Rightarrow> ColorSpaceResult \<Rightarrow> error + string \<times> color option" where
  "formatPreview A color spaceResult =
     bindE (case rgbValues spaceResult of
              Some v \<Rightarrow> Inr v
            | None \<Rightarrow> findClosestInGamut A color) (\<lambda>previewRGB.
     bindE (formatHexRGBA A previewRGB) (\<lambda>hex.
     bindE (oklch A color) (\<lambda>ok. Inr (hex, ok))))"

definition formatColor :: "adapter \<Rightarrow> cache \<Rightarrow> color \<Rightarrow> ColorFormat \<Rightarrow> ColorData \<times> cache" where
  "formatColor A cache color fmt =
     (let (spaceResult, cache1) = detectColorSpace A cache color;
          actualSpace = (if isSRGBFormat fmt then SpaceSrgb else originalSpace spaceResult);
          actualFallback = (if isSRGBFormat fmt then SpaceSrgb else fallbackSpace spaceResult)
      in case formatPreview A color spaceResult of
           Inl e \<Rightarrow> (formatCaught fmt, cache1)
         | Inr (hex, ok) \<Rightarrow>
             (let (v, cache2) = getFallback A cache1 color fmt
                    \<lparr>cache_p3 = p3Values spaceResult, cache_rgb = rgbValues spaceResult,
                     cache_oklch = ok\<rparr>
              in (\<lparr>format = fmt, cd_value = v, hexValue = hex,
                   gamut = actualSpace, cd_fallbackSpace = actualFallback,
                   warnings = \<lparr>unsupported = False,
                     fallback = (originalSpace spaceResult = SpaceOut \<and> isSRGBFormat fmt),
                     outOfGamut = (originalSpace spaceResult = SpaceOut
                                   \<and> fmt \<in> set [F_p3, F_vec, F_lrgb])\<rparr>\<rparr>,
                  cache2)))"

definition getWarnings :: "adapter \<Rightarrow> cache \<Rightarrow> color \<Rightarrow> ColorFormat \<Rightarrow> Warnings \<times> cache" where
  "getWarnings A cache color fmt =
     (let (spaceResult, cache') = detectColorSpace A cache color;
          needsP3Fallback = (fmt \<in> set [F_p3, F_vec, F_lrgb])
      in (\<lparr>unsupported = False,
           fallback = (originalSpace spaceResult = SpaceOut \<and> isSRGBFormat fmt),
           outOfGamut = (originalSpace spaceResult = SpaceOut \<and> needsP3Fallback)\<rparr>,
          cache'))"

section \<open>The orchestrator of convert-color.tsx\<close>

definition startsWith :: "string \<Rightarrow> string \<Rightarrow> bool" where
  "startsWith p s = (take (length p) s = p)"

text \<open>
  A text is the list of the bytes of its UTF-8 encoding (a text with an unpaired
  surrogate has none and is outside the model). \<open>String.prototype.trim\<close> strips
  from both ends the code points that ECMAScript calls white space or line terminator:
  U+0009 to U+000D, U+0020, U+00A0, U+1680, U+2000 to U+200A, U+2028, U+2029, U+202F,
  U+205F, U+3000 and U+FEFF. \<open>whiteSpace\<close> lists their encodings; none of them is a proper
  suffix of the encoding of another code point, so that the test at the end of a text is
  the test at its start on the reversed bytes.
\<close>

definition whiteSpace :: "string list" where
  "whiteSpace =
     [[CHR 0x09], [CHR 0x0A], [CHR 0x0B], [CHR 0x0C], [CHR 0x0D], [CHR 0x20],
      [CHR 0xC2, CHR 0xA0],
      [CHR 0xE1, CHR 0x9A, CHR 0x80],
      [CHR 0xE2, CHR 0x80, CHR 0x80], [CHR 0xE2, CHR 0x80, CHR 0x81],
      [CHR 0xE2, CHR 0x80, CHR 0x82], [CHR 0xE2, CHR 0x80, CHR 0x83],
      [CHR 0xE2, CHR 0x80, CHR 0x84], [CHR 0xE2, CHR 0x80, CHR 0x85],
      [CHR 0xE2, CHR 0x80, CHR 0x86], [CHR 0xE2, CHR 0x80, CHR 0x87],
      [CHR 0xE2, CHR 0x80, CHR 0x88], [CHR 0xE2, CHR 0x80, CHR 0x89],
      [CHR 0xE2, CHR 0x80, CHR 0x8A],
      [CHR 0xE2, CHR 0x80, CHR 0xA8], [CHR 0xE2, CHR 0x80, CHR 0xA9],
      [CHR 0xE2, CHR 0x80, CHR 0xAF],
      [CHR 0xE2, CHR 0x81, CHR 0x9F],
      [CHR 0xE3, CHR 0x80, CHR 0x80],
      [CHR 0xEF, CHR 0xBB, CHR 0xBF]]"

text \<open>
  The number of bytes of the member of \<open>ws\<close> that the text starts with, 0 when it starts
  with none; \<open>dropSpaces\<close> removes such members from the start for as long as there is one.
\<close>

definition spaceLength :: "string list \<Rightarrow> string \<Rightarrow> nat" where
  "spaceLength ws s =
     (case find (\<lambda>w. w \<noteq> [] \<and> take (length w) s = w) ws of
        None \<Rightarrow> 0
      | Some w \<Rightarrow> length w)"

lemma spaceLength_shorter:
  "0 < spaceLength ws s \<Longrightarrow> length s - spaceLength ws s < length s"
proof -
  assume a: "0 < spaceLength ws s"
  have "s \<noteq> []"
  proof
    assume "s = []"
    hence "find (\<lambda>w. w \<noteq> [] \<and> take (length w) s = w) ws = None"
      by (simp add: find_None_iff)
    thus False using a by (simp add: spaceLength_def)
  qed
  thus ?thesis using a by (cases s) simp_all
qed

function dropSpaces :: "string list \<Rightarrow> string \<Rightarrow> string" where
  "dropSpaces ws s =
     (if spaceLength ws s = 0 then s else dropSpaces ws (drop (spaceLength ws s) s))"
  by pat_completeness auto
termination
  by (relation "measure (\<lambda>(ws, s). length s)") (simp_all add: spaceLength_shorter)

declare dropSpaces.simps [simp del]

definition trim :: "string \<Rightarrow> string" where
  "trim s = rev (dropSpaces (map rev whiteSpace) (rev (dropSpaces whiteSpace s)))"

definition hexDigitValue :: "char \<Rightarrow> nat option" where
  "hexDigitValue c =
     map_of (zip ''0123456789abcdefABCDEF''
               [0, 1, 2, 3, 4, 5, 6, 7, 8, 9, 10, 11, 12, 13, 14, 15, 10, 11, 12, 13, 14, 15]) c"

text \<open>The test \<open>/^#[0-9A-F]{8}$/i\<close>.\<close>

definition isP3HexFormat :: "string \<Rightarrow> bool" where
  "isP3HexFormat input =
     (length input = 9 \<and> hd input = CHR ''#'' \<and> (\<forall>c \<in> set (tl input). hexDigitValue c \<noteq> None))"

text \<open>\<open>parseInt(s, 16)\<close> on two hex digits.\<close>

definition parseHex2 :: "string \<Rightarrow> real" where
  "parseHex2 s = real (the (hexDigitValue (s ! 0)) * 16 + the (hexDigitValue (s ! 1)))"

definition p3Black :: color where
  "p3Black = \<lparr>mode = P3, ch1 = Some 0, ch2 = Some 0, ch3 = Some 0, alpha = Some 1\<rparr>"

text \<open>
  \<open>processFigmaP3\<close>: a text without the prefix throws inside the \<open>try\<close> and the \<open>catch\<close>
  returns opaque P3 black, as the failed pattern test does. The digits are read only
  after the pattern test has passed.
\<close>

definition processFigmaP3 :: "string \<Rightarrow> color" where
  "processFigmaP3 figmaP3Color =
     (if \<not> startsWith ''Figma P3'' figmaP3Color then p3Black
      else
        (let cleanValue = trim (if startsWith ''Figma P3 '' figmaP3Color
                                then drop 9 figmaP3Color else figmaP3Color)
         in if \<not> isP3HexFormat cleanValue then p3Black
            else \<lparr>mode = P3,
                  ch1 = Some (parseHex2 (take 2 (drop 1 cleanValue)) / 255),
                  ch2 = Some (parseHex2 (take 2 (drop 3 cleanValue)) / 255),
                  ch3 = Some (parseHex2 (take 2 (drop 5 cleanValue)) / 255),
                  alpha = Some (parseHex2 (take 2 (drop 7 cleanValue)) / 255)\<rparr>))"

definition commandFormats :: "ColorFormat list" where
  "commandFormats = [F_figmaP3, F_oklch, F_p3, F_oklab, F_vec, F_hex, F_rgb, F_hsl]"

fun formatEach :: "adapter \<Rightarrow> cache \<Rightarrow> color \<Rightarrow> ColorFormat list \<Rightarrow> ColorData list \<times> cache" where
  "formatEach A cache color [] = ([], cache)"
| "formatEach A cache color (f # fs) =
     (let (d, cache1) = formatColor A cache color f;
          (ds, cache2) = formatEach A cache1 color fs
      in (d # ds, cache2))"

text \<open>
  The effect of the \<open>Command\<close> component on a change of the search text: the list it
  hands to \<open>setColors\<close>, and the cache afterwards. A throw of the parser is caught and
  gives the empty list.
\<close>

definition inputColor :: "adapter \<Rightarrow> string \<Rightarrow> error + color option" where
  "inputColor A searchText =
     (if startsWith ''Figma P3'' searchText then Inr (Some (processFigmaP3 searchText))
      else if isP3HexFormat searchText
        then Inr (Some (processFigmaP3 (''Figma P3 '' @ searchText)))
      else parse A searchText)"

definition convertAll :: "adapter \<Rightarrow> cache \<Rightarrow> string \<Rightarrow> ColorData list \<times> cache" where
  "convertAll A cache searchText =
     (if searchText = [] then ([], cache)
      else case inputColor A searchText of
             Inl e \<Rightarrow> ([], cache)
           | Inr None \<Rightarrow> ([], cache)
           | Inr (Some color) \<Rightarrow> formatEach A cache color commandFormats)"

section \<open>The second screen (color-converter.tsx)\<close>

text \<open>
  \<open>round(value, decimals)\<close> inside a template: \<open>0\<close> for \<open>undefined\<close>, else the text of
  \<open>Number(value.toFixed(decimals))\<close>. \<open>roundTextNaN\<close> is the same on the result of an
  arithmetic operation, which is NaN rather than \<open>undefined\<close>.
\<close>

definition roundText :: "real option \<Rightarrow> nat \<Rightarrow> string" where
  "roundText v d = (case v of None \<Rightarrow> ''0'' | Some x \<Rightarrow> numberToString d x)"

definition roundTextNaN :: "real option \<Rightarrow> nat \<Rightarrow> string" where
  "roundTextNaN v d = (case v of None \<Rightarrow> ''NaN'' | Some x \<Rightarrow> numberToString d x)"

definition alphaSuffix :: "color \<Rightarrow> string" where
  "alphaSuffix c = (case alpha c of None \<Rightarrow> []
                    | Some a \<Rightarrow> if a < 1 then '' / '' @ numberToString 3 a else [])"

definition times100 :: "real option \<Rightarrow> real option" where
  "times100 v = map_option (\<lambda>x. x * 100) v"

definition screen2_toLinear :: "real option \<Rightarrow> real option" where
  "screen2_toLinear v =
     (case v of None \<Rightarrow> None
      | Some x \<Rightarrow> if x > 4045 / 100000 then pow24 ((x + 55 / 1000) / (1055 / 1000))
                  else Some (x / (1292 / 100)))"

text \<open>
  Destructuring the result of a converter throws when the converter answered null.
\<close>

definition destructure :: "error + color option \<Rightarrow> (color \<Rightarrow> error + 'a) \<Rightarrow> error + 'a" where
  "destructure m f = bindE m (\<lambda>r. case r of None \<Rightarrow> Inl TypeError | Some c \<Rightarrow> f c)"

text \<open>
  \<open>formatColor\<close> of color-converter.tsx, on a parsed (non-null) color; the formats of
  this screen are the strings of its type \<open>ColorFormat\<close>.
\<close>

definition screen2_formatColor :: "adapter \<Rightarrow> color \<Rightarrow> string \<Rightarrow> error + string" where
  "screen2_formatColor A color fmt =
     (if fmt = ''rgb'' then lib_formatRgb A color
      else if fmt = ''hex'' then bindE (lib_formatHex A color) (\<lambda>s. Inr (toUpperCase s))
      else if fmt = ''hsl'' then
        destructure (hsl A color) (\<lambda>c.
          Inr (''hsl('' @ roundText (get_h c) 2 @ '' '' @ roundTextNaN (times100 (get_s c)) 1
               @ ''% '' @ roundTextNaN (times100 (get_l c)) 1 @ ''%'' @ alphaSuffix c @ '')''))
      else if fmt = ''oklch'' then
        destructure (oklch A color) (\<lambda>c.
          Inr (''oklch('' @ roundTextNaN (times100 (get_l c)) 2 @ ''% '' @ roundText (get_c c) 3
               @ '' '' @ roundText (get_h c) 2 @ alphaSuffix c @ '')''))
      else if fmt = ''oklab'' then
        destructure (oklab A color) (\<lambda>c.
          Inr (''oklab('' @ roundTextNaN (times100 (get_l c)) 2 @ ''% '' @ roundText (get_a c) 2
               @ '' '' @ roundText (get_b c) 2 @ alphaSuffix c @ '')''))
      else if fmt = ''p3'' then
        destructure (p3 A color) (\<lambda>c.
          Inr (''color(display-p3 '' @ roundText (get_r c) 4 @ '' '' @ roundText (get_g c) 4
               @ '' '' @ roundText (get_b c) 4 @ alphaSuffix c @ '')''))
      else if fmt = ''vec'' then
        destructure (rgb A color) (\<lambda>c.
          Inr (''Linear RGB vec('' @ roundTextNaN (screen2_toLinear (get_r c)) 5 @ '', ''
               @ roundTextNaN (screen2_toLinear (get_g c)) 5 @ '', ''
               @ roundTextNaN (screen2_toLinear (get_b c)) 5 @ '')''))
      else if fmt = ''figma'' then
        destructure (p3 A color) (\<lambda>c.
          bindE (lib_formatHex A c) (\<lambda>s. Inr (toUpperCase s @ ''FF'')))
      else Inr ''Unsupported format'')"

record ColorData2 =
  format2 :: string
  value2 :: string
  hexValue2 :: string

record Screen2 =
  convertedColors :: "ColorData2 list"
  inputFormat :: string

definition screen2_formats :: "string list" where
  "screen2_formats = [''rgb'', ''hex'', ''hsl'', ''p3'', ''oklch'', ''oklab'', ''vec'', ''figma'']"

fun screen2_formatEach :: "adapter \<Rightarrow> color \<Rightarrow> string \<Rightarrow> string list \<Rightarrow> error + ColorData2 list" where
  "screen2_formatEach A color hex [] = Inr []"
| "screen2_formatEach A color hex (f # fs) =
     bindE (screen2_formatColor A color f) (\<lambda>v.
     bindE (screen2_formatEach A color hex fs) (\<lambda>rest.
       Inr (\<lparr>format2 = f, value2 = v, hexValue2 = hex\<rparr> # rest)))"

definition sniffFormat :: "string \<Rightarrow> string" where
  "sniffFormat input =
     (if startsWith ''#'' input then ''hex''
      else if startsWith ''rgb'' input then ''rgb''
      else if startsWith ''hsl'' input then ''hsl''
      else if startsWith ''oklch'' input then ''oklch''
      else if startsWith ''oklab'' input then ''oklab''
      else if startsWith ''color(display-p3'' input then ''p3''
      else if startsWith ''vec'' input then ''vec''
      else ''rgb'')"

text \<open>
  \<open>handleColorConversion\<close> has no handler: a throw leaves the state as it was and
  reaches the caller.
\<close>

definition handleColorConversion :: "adapter \<Rightarrow> Screen2 \<Rightarrow> string \<Rightarrow> error + Screen2" where
  "handleColorConversion A st input =
     bindE (parse A input) (\<lambda>parsedColor.
       case parsedColor of
         Some c \<Rightarrow>
           bindE (lib_formatHex A c) (\<lambda>h.
           bindE (screen2_formatEach A c (toUpperCase h) screen2_formats) (\<lambda>formattedColors.
             Inr \<lparr>convertedColors = formattedColors, inputFormat = sniffFormat input\<rparr>))
       | None \<Rightarrow>
           Inr (st\<lparr>convertedColors :=
                  [\<lparr>format2 = ''Invalid color input'', value2 = [], hexValue2 = ''#808080''\<rparr>]\<rparr>))"

section \<open>A sample of the library on the gray axis\<close>

text \<open>
  For running the model on concrete inputs: the conversions of a few achromatic colors,
  where they are exact in rational arithmetic. A row \<open>(l, v)\<close> pairs the OKLab lightness
  \<open>l\<close> with the sRGB (and Display-P3) channel value \<open>v\<close> of the same gray: \<open>v = 12.92 * l^3\<close>
  on the linear segment of the transfer function, and white is \<open>(1, 1)\<close>. The XYZ
  coordinates are \<open>l^3\<close> times the D65 white point, and the hue of a gray is undefined
  on output and ignored on input. A conversion to the color's own mode returns the
  color, any other color converts to null, and nothing throws.
\<close>

definition grayTable :: "(real \<times> real) list" where
  "grayTable = [(0, 0), (1, 1), (1 / 10, 323 / 25000), (- 1 / 10, - 323 / 25000)]"

definition grayChannels :: "mode \<Rightarrow> real \<times> real \<Rightarrow> real option \<times> real option \<times> real option" where
  "grayChannels m row =
     (case row of (l, v) \<Rightarrow>
        (case m of
           Rgb \<Rightarrow> (Some v, Some v, Some v)
         | P3 \<Rightarrow> (Some v, Some v, Some v)
         | Oklch \<Rightarrow> (Some l, Some 0, None)
         | Oklab \<Rightarrow> (Some l, Some 0, Some 0)
         | Xyz65 \<Rightarrow> (Some (3127 / 3290 * (l * l * l)), Some (l * l * l),
                     Some (3583 / 3290 * (l * l * l)))
         | Hsl \<Rightarrow> (None, Some 0, Some v)))"

definition isGrayRow :: "color \<Rightarrow> real \<times> real \<Rightarrow> bool" where
  "isGrayRow c row =
     (case grayChannels (mode c) row of (a, b, d) \<Rightarrow>
        (mode c = Hsl \<or> ch1 c = a) \<and> ch2 c = b \<and> (mode c = Oklch \<or> ch3 c = d))"

definition sample_convert :: "mode \<Rightarrow> color \<Rightarrow> error + color option" where
  "sample_convert m c =
     (if mode c = m then Inr (Some c)
      else Inr (map_option
                 (\<lambda>row. case grayChannels m row of (a, b, d) \<Rightarrow>
                    \<lparr>mode = m, ch1 = a, ch2 = b, ch3 = d, alpha = alpha c\<rparr>)
                 (find (isGrayRow c) grayTable)))"

definition sample_parse :: "string \<Rightarrow> error + color option" where
  "sample_parse s =
     Inr (map_of
       [(''#ffffff'', \<lparr>mode = Rgb, ch1 = Some 1, ch2 = Some 1, ch3 = Some 1, alpha = None\<rparr>),
        (''#000000'', \<lparr>mode = Rgb, ch1 = Some 0, ch2 = Some 0, ch3 = Some 0, alpha = None\<rparr>),
        (''oklch(100% 0 0)'',
           \<lparr>mode = Oklch, ch1 = Some 1, ch2 = Some 0, ch3 = Some 0, alpha = None\<rparr>)] s)"

definition sample_formatHex :: "color \<Rightarrow> error + string" where
  "sample_formatHex c =
     (case sample_convert Rgb c of
        Inr (Some v) \<Rightarrow>
          Inr (''#'' @ concat (map (\<lambda>x. padStart 2 (CHR ''0'') (natToString 16 (byteOf (or0 x))))
                                [ch1 v, ch2 v, ch3 v]))
      | _ \<Rightarrow> Inl LibraryError)"

definition sample_formatRgb :: "color \<Rightarrow> error + string" where
  "sample_formatRgb c =
     (case sample_convert Rgb c of
        Inr (Some v) \<Rightarrow> Inr (rgbText (v\<lparr>mode := Rgb\<rparr>))
      | _ \<Rightarrow> Inl LibraryError)"

definition sample_adapter :: adapter where
  "sample_adapter = \<lparr>lib_parse = sample_parse, lib_convert = sample_convert,
                      lib_formatRgb = sample_formatRgb, lib_formatHex = sample_formatHex\<rparr>"

text \<open>The same library with converters that throw on every call.\<close>

definition throwing_adapter :: adapter where
  "throwing_adapter = sample_adapter\<lparr>lib_convert := \<lambda>m c. Inl LibraryError\<rparr>"

text \<open>
  A second stand-in keeps the channel values of a color and changes its mode only. It is
  not a color conversion; it serves to run the chroma loop of the gamut mapper up to a
  success.
\<close>

definition relabel_adapter :: adapter where
  "relabel_adapter = sample_adapter\<lparr>lib_convert := \<lambda>m c. Inr (Some (c\<lparr>mode := m\<rparr>))\<rparr>"

section \<open>Notions used to state the properties\<close>

text \<open>
  The detection cache starts empty and is written by \<open>detectColorSpace\<close> only, with
  the result it has just computed for the key: every entry is the detection result of
  its key.
\<close>

definition cache_ok :: "adapter \<Rightarrow> cache \<Rightarrow> bool" where
  "cache_ok A cache = (\<forall>k r. cache k = Some r \<longrightarrow> detectBody A k = Inr r)"

text \<open>
  Every channel of a converted color lies within \<open>[lo, hi]\<close>; a null conversion result
  has no channels within any range, and an undefined channel counts as 0.
\<close>

definition channelsWithin :: "real \<Rightarrow> real \<Rightarrow> color option \<Rightarrow> bool" where
  "channelsWithin lo hi x =
     (case x of None \<Rightarrow> False
      | Some c \<Rightarrow> list_all (\<lambda>v. lo \<le> or0 v \<and> or0 v \<le> hi) [ch1 c, ch2 c, ch3 c])"

text \<open>Sample inputs: a gray below zero in Display-P3 with alpha one half, and its proxy.\<close>

definition negGrayP3 :: color where
  "negGrayP3 = \<lparr>mode = P3, ch1 = Some (- 323 / 25000), ch2 = Some (- 323 / 25000),
                 ch3 = Some (- 323 / 25000), alpha = Some (1 / 2)\<rparr>"

definition negGrayProxy :: color where
  "negGrayProxy = \<lparr>mode = Oklch, ch1 = Some (- 1 / 10), ch2 = Some 0, ch3 = None,
                    alpha = Some (1 / 2)\<rparr>"

text \<open>The report of a failed proxy projection.\<close>

definition outReport :: ColorSpaceResult where
  "outReport = \<lparr>originalSpace = SpaceOut, fallbackSpace = SpaceSrgb, p3Values = None,
                 rgbValues = None, inGamut = False, needsFallback = True\<rparr>"

text \<open>
  More sample inputs: the color of the text \<open>Figma P3 #FF800080\<close>, which is not on the
  gray axis, and pure white in OKLCH.
\<close>

definition chromaticP3 :: color where
  "chromaticP3 = \<lparr>mode = P3, ch1 = Some 1, ch2 = Some (128 / 255), ch3 = Some 0,
                   alpha = Some (128 / 255)\<rparr>"

definition whiteOklch :: color where
  "whiteOklch = \<lparr>mode = Oklch, ch1 = Some 1, ch2 = Some 0, ch3 = Some 0, alpha = None\<rparr>"

text \<open>Two libraries that agree on every converter except the one to XYZ D65.\<close>

definition sameButXyz65 :: "adapter \<Rightarrow> adapter \<Rightarrow> bool" where
  "sameButXyz65 A B = (\<forall>m. m \<noteq> Xyz65 \<longrightarrow> lib_convert A m = lib_convert B m)"

text \<open>The library contract of the specification: a converter never throws.\<close>

definition neverThrows :: "adapter \<Rightarrow> bool" where
  "neverThrows A = (\<forall>m c. \<exists>r. lib_convert A m c = Inr r)"

text \<open>
  \<open>res\<close> is the RGB conversion of the OKLCH color with the lightness and hue of \<open>ok\<close> and a
  positive chroma not above the chroma of \<open>ok\<close>.
\<close>

definition reducedChroma :: "adapter \<Rightarrow> color \<Rightarrow> color \<Rightarrow> bool" where
  "reducedChroma A ok res =
     (\<exists>c c' t. get_c ok = Some c \<and> 0 < c' \<and> c' \<le> c
        \<and> oklch A \<lparr>mode = Oklch, ch1 = get_l ok, ch2 = Some c', ch3 = get_h ok, alpha = None\<rparr>
            = Inr (Some t)
        \<and> rgb A t = Inr (Some res))"

text \<open>An OKLCH color off the gray axis with a chroma of four millionths.\<close>

definition faintOklch :: color where
  "faintOklch = \<lparr>mode = Oklch, ch1 = Some (1 / 2), ch2 = Some (1 / 250000), ch3 = Some 0,
                  alpha = None\<rparr>"

text \<open>The color of the text \<open>color(display-p3 none 0 0)\<close>: its red channel is undefined.\<close>

definition undefinedRedP3 :: color where
  "undefinedRedP3 = \<lparr>mode = P3, ch1 = None, ch2 = Some 0, ch3 = Some 0, alpha = None\<rparr>"

text \<open>
  Two sRGB inputs on the gray axis: \<open>rgb(1.292% 1.292% 1.292%)\<close>, whose linear-light value
  is one thousandth, and white.
\<close>

definition darkGrayRgb :: color where
  "darkGrayRgb = \<lparr>mode = Rgb, ch1 = Some (323 / 25000), ch2 = Some (323 / 25000),
                   ch3 = Some (323 / 25000), alpha = None\<rparr>"

definition whiteRgb :: color where
  "whiteRgb = \<lparr>mode = Rgb, ch1 = Some 1, ch2 = Some 1, ch3 = Some 1, alpha = None\<rparr>"

text \<open>The record that the second screen shows for a rejected text.\<close>

definition invalidPlaceholder :: ColorData2 where
  "invalidPlaceholder =
     \<lparr>format2 = ''Invalid color input'', value2 = [], hexValue2 = ''#808080''\<rparr>"

text \<open>
  Two colors with the same mode and channels (they may differ in alpha), and two
  conversion results that agree up to alpha.
\<close>

definition sameChannels :: "color \<Rightarrow> color \<Rightarrow> bool" where
  "sameChannels c d = (mode c = mode d \<and> ch1 c = ch1 d \<and> ch2 c = ch2 d \<and> ch3 c = ch3 d)"

definition agreeUpToAlpha :: "error + color option \<Rightarrow> error + color option \<Rightarrow> bool" where
  "agreeUpToAlpha x y = rel_sum (=) (rel_option sameChannels) x y"

text \<open>An OKLCH color with the chroma 4.\<close>

definition vividOklch :: color where
  "vividOklch = \<lparr>mode = Oklch, ch1 = Some (1 / 2), ch2 = Some 4, ch3 = Some 0, alpha = None\<rparr>"

text \<open>
  One round of the loop of \<open>findClosestInGamut\<close>, on the chroma \<open>c\<close> with the lightness \<open>l\<close>
  and the hue \<open>h\<close>: the RGB conversion of OKLCH\<open>(l, c, h)\<close> when the library gives one and
  it passes the in-gamut test, and nothing otherwise.
\<close>

definition chromaTest :: "adapter \<Rightarrow> real option \<Rightarrow> real option \<Rightarrow> real \<Rightarrow> color option" where
  "chromaTest A l h c =
     (case bindE (oklch A \<lparr>mode = Oklch, ch1 = l, ch2 = Some c, ch3 = h, alpha = None\<rparr>)
             (rgb_nullable A) of
        Inr (Some t) \<Rightarrow> (if isInGamut A t EPSILON = Inr True then Some t else None)
      | _ \<Rightarrow> None)"

text \<open>
  The chromas that the loop may test for an input of chroma \<open>c\<close> are \<open>c, c/2, c/4, ...\<close>:
  round \<open>k\<close> tests \<open>c / 2^k\<close> with the step \<open>c / 2 / 2^k\<close>, and is entered only while that
  step is above \<open>1e-6\<close>. \<open>firstInGamut\<close>: \<open>res\<close> is the result of the first round whose
  test succeeds. \<open>noneInGamut\<close>: no round succeeds; this holds in particular when the
  chroma is undefined or at most \<open>2e-6\<close>, where no round is entered.
\<close>

definition firstInGamut :: "adapter \<Rightarrow> color \<Rightarrow> color \<Rightarrow> bool" where
  "firstInGamut A ok res =
     (\<exists>c k. get_c ok = Some c \<and> 1 / 1000000 < c / 2 / 2 ^ k
        \<and> chromaTest A (get_l ok) (get_h ok) (c / 2 ^ k) = Some res
        \<and> (\<forall>j<k. chromaTest A (get_l ok) (get_h ok) (c / 2 ^ j) = None))"

definition noneInGamut :: "adapter \<Rightarrow> color \<Rightarrow> bool" where
  "noneInGamut A ok =
     (\<forall>c k. get_c ok = Some c \<and> 1 / 1000000 < c / 2 / 2 ^ k
        \<longrightarrow> chromaTest A (get_l ok) (get_h ok) (c / 2 ^ k) = None)"

text \<open>
  The body of the \<open>try\<close> block of \<open>getFallback\<close>, and the record that \<open>formatColor\<close> builds
  around the text \<open>v\<close> that \<open>getFallback\<close> returns: the notation, the preview \<open>hex\<close>, and
  the gamut and flags read from the detection report \<open>sr\<close>.
\<close>

definition renderText ::
    "adapter \<Rightarrow> cache \<Rightarrow> color \<Rightarrow> ColorFormat \<Rightarrow> ColorCache \<Rightarrow> error + string" where
  "renderText A cache color fmt cc =
     bindE (fst (detectColorSpaceAndFallback A cache color)) (getFallbackTry A color fmt cc)"

definition ordinaryRecord :: "ColorFormat \<Rightarrow> ColorSpaceResult \<Rightarrow> string \<Rightarrow> string \<Rightarrow> ColorData" where
  "ordinaryRecord fmt sr hex v =
     \<lparr>format = fmt, cd_value = v, hexValue = hex,
      gamut = (if isSRGBFormat fmt then SpaceSrgb else originalSpace sr),
      cd_fallbackSpace = (if isSRGBFormat fmt then SpaceSrgb else fallbackSpace sr),
      warnings = \<lparr>unsupported = False,
                   fallback = (originalSpace sr = SpaceOut \<and> isSRGBFormat fmt),
                   outOfGamut = (originalSpace sr = SpaceOut \<and> fmt \<in> set [F_p3, F_vec, F_lrgb])\<rparr>\<rparr>"

text \<open>
  The input grammars of the specification: the Figma P3 shorthand is \<open>#\<close> and eight hex
  digits, bare or after the literal prefix \<open>Figma P3\<close> and one space; every other grammar
  is the library parser's. A text matches no recognized grammar when it is not the
  shorthand and the library parser gives no color for it (null, or a throw).
\<close>

definition figmaShorthand :: "string \<Rightarrow> bool" where
  "figmaShorthand text =
     (isP3HexFormat text \<or> (startsWith ''Figma P3 '' text \<and> isP3HexFormat (drop 9 text)))"

definition matchesNoGrammar :: "adapter \<Rightarrow> string \<Rightarrow> bool" where
  "matchesNoGrammar A text =
     (\<not> figmaShorthand text
      \<and> (case parse A text of Inr (Some c) \<Rightarrow> False | Inr None \<Rightarrow> True | Inl e \<Rightarrow> True))"

section \<open>Basic facts\<close>

lemmas getter_defs = get_r_def get_g_def get_b_def get_l_def get_c_def get_h_def get_a_def
  get_s_def

lemmas lib_defs = convert_def rgb_def oklch_def p3_def oklab_def xyz65_def hsl_def parse_def
  rgb_nullable_def bindE_def

lemmas sample_defs = sample_adapter_def throwing_adapter_def sample_convert_def grayTable_def
  grayChannels_def isGrayRow_def sample_parse_def sample_formatHex_def sample_formatRgb_def

text \<open>Rules for running the text functions on numerals.\<close>

lemma natToString_digit: "n < base \<Longrightarrow> natToString base n = [digitChar n]"
  by (simp add: natToString.simps)

lemma natToString_more:
  "2 \<le> base \<Longrightarrow> base \<le> n \<Longrightarrow>
   natToString base n = natToString base (n div base) @ [digitChar (n mod base)]"
  by (subst natToString.simps) simp

lemma replicate_numeral_eval: "replicate (numeral k) x = x # replicate (pred_numeral k) x"
  by (simp add: numeral_eq_Suc)

lemmas text_defs = replicate_numeral_eval toFixed_def toFixedNaN_def padStart_def padEnd_def
  digitChar_def mathRound_def natToString_digit natToString_more Let_def formatValue5_def

lemmas hex_defs = toHex_def byteOf_def clamp01_def toUpperCase_def upperChar_def text_defs

lemma convert_mode: "convert A m c = Inr (Some v) \<Longrightarrow> mode v = m"
  by (auto simp: convert_def bindE_def split: sum.splits)

lemma andInGamut_rgb:
  "rgb A c = Inr rv \<Longrightarrow>
   andInGamut A rv = Inr (channelsWithin (- (1 / 1000000)) (1 + 1 / 1000000) rv)"
  by (cases rv)
     (auto simp: andInGamut_def channelsWithin_def isInGamut_def inRgbRange_def EPSILON_def
        getter_defs Let_def rgb_def dest!: convert_mode)

lemma andInGamut_p3:
  "p3 A c = Inr pv \<Longrightarrow>
   andInGamut A pv = Inr (channelsWithin (- (1 / 1000000)) (16 / 10 + 1 / 1000000) pv)"
  by (cases pv)
     (auto simp: andInGamut_def channelsWithin_def isInGamut_def inP3Range_def EPSILON_def
        getter_defs Let_def p3_def dest!: convert_mode)

lemma cache_ok_empty: "cache_ok A Map.empty"
  by (simp add: cache_ok_def)

lemma detect_cached:
  assumes "cache_ok A cache" "detectBody A color = Inr r"
  shows "fst (detectColorSpace A cache color) = r"
  using assms by (auto simp: detectColorSpace_def cache_ok_def split: option.splits)

lemma cache_ok_detect:
  assumes "cache_ok A cache"
  shows "cache_ok A (snd (detectColorSpace A cache color))"
  using assms by (auto simp: detectColorSpace_def cache_ok_def split: option.splits sum.splits)

lemma detectBody_proxy:
  assumes "getProxyColor A color = Inr (Some proxy)" "rgb A proxy = Inr rv" "p3 A proxy = Inr pv"
  shows "detectBody A color = Inr
     (let inS = channelsWithin (- (1 / 1000000)) (1 + 1 / 1000000) rv;
          inP = channelsWithin (- (1 / 1000000)) (16 / 10 + 1 / 1000000) pv
      in \<lparr>originalSpace = (if inS then SpaceSrgb else if inP then SpaceP3 else SpaceOut),
          fallbackSpace = SpaceSrgb, p3Values = pv, rgbValues = rv,
          inGamut = (inS \<or> inP), needsFallback = (\<not> inS)\<rparr>)"
  using assms andInGamut_rgb[OF assms(2)] andInGamut_p3[OF assms(3)]
  by (simp add: detectBody_def bindE_def Let_def)

lemma sample_proxy_negGray: "getProxyColor sample_adapter negGrayP3 = Inr (Some negGrayProxy)"
  by (simp add: getProxyColor_def lib_defs sample_defs negGrayP3_def negGrayProxy_def getter_defs)

lemma sample_rgb_negGrayProxy:
  "rgb sample_adapter negGrayProxy = Inr (Some (negGrayP3\<lparr>mode := Rgb\<rparr>))"
  by (simp add: lib_defs sample_defs negGrayP3_def negGrayProxy_def)

lemma sample_p3_negGrayProxy:
  "p3 sample_adapter negGrayProxy = Inr (Some negGrayP3)"
  by (simp add: lib_defs sample_defs negGrayP3_def negGrayProxy_def)

section \<open>Gamut classification\<close>

text \<open>
  Claim C1. For a color whose proxy projection succeeds, and whose proxy the library
  converts to RGB and to P3 without throwing, detection reports \<open>srgb\<close> exactly when every
  channel of the RGB conversion lies within \<open>[-1e-6, 1 + 1e-6]\<close>; otherwise \<open>p3\<close> exactly
  when every channel of the P3 conversion lies within \<open>[-1e-6, 1.6 + 1e-6]\<close>; otherwise
  \<open>out\<close>. Outside \<open>srgb\<close> the report has \<open>needsFallback\<close>, and the fallback space is always
  \<open>srgb\<close>. This holds on a fresh key and on a key answered from the cache.
\<close>

theorem detect_classification:
  assumes "cache_ok A cache"
    and "getProxyColor A color = Inr (Some proxy)"
    and "rgb A proxy = Inr rv" and "p3 A proxy = Inr pv"
  shows "let r = fst (detectColorSpace A cache color);
             inS = channelsWithin (- (1 / 1000000)) (1 + 1 / 1000000) rv;
             inP = channelsWithin (- (1 / 1000000)) (16 / 10 + 1 / 1000000) pv
         in originalSpace r = (if inS then SpaceSrgb else if inP then SpaceP3 else SpaceOut)
            \<and> (\<not> inS \<longrightarrow> needsFallback r)
            \<and> fallbackSpace r = SpaceSrgb"
  using detect_cached[OF assms(1) detectBody_proxy[OF assms(2,3,4)]]
  by (simp add: Let_def)

theorem detect_classification_witness:
  "originalSpace (fst (detectColorSpace sample_adapter Map.empty negGrayP3)) = SpaceOut
   \<and> needsFallback (fst (detectColorSpace sample_adapter Map.empty negGrayP3))
   \<and> fallbackSpace (fst (detectColorSpace sample_adapter Map.empty negGrayP3)) = SpaceSrgb"
  using detect_classification [OF cache_ok_empty sample_proxy_negGray sample_rgb_negGrayProxy
          sample_p3_negGrayProxy]
  by (simp add: Let_def channelsWithin_def negGrayP3_def or0_def)

section \<open>Failures during detection\<close>

lemma detectBody_null: "getProxyColor A color = Inr None \<Longrightarrow> detectBody A color = Inr outReport"
  by (simp add: detectBody_def bindE_def outReport_def)

lemma detect_thrown:
  assumes "cache_ok A cache" "detectBody A color = Inl e"
  shows "detectColorSpace A cache color = (detectCaught, cache)"
  using assms by (auto simp: detectColorSpace_def cache_ok_def split: option.splits)

lemma sample_proxy_chromatic: "getProxyColor sample_adapter chromaticP3 = Inr None"
  by (simp add: getProxyColor_def lib_defs sample_defs chromaticP3_def getter_defs)

lemma throwing_detectBody: "detectBody throwing_adapter negGrayP3 = Inl LibraryError"
  by (simp add: detectBody_def getProxyColor_def lib_defs sample_defs negGrayP3_def getter_defs)




section \<open>Pure white in OKLCH\<close>

lemma white_proxy:
  "mode color = Oklch \<Longrightarrow> get_l color = Some 1 \<Longrightarrow> get_c color = Some 0 \<Longrightarrow>
   getProxyColor A color = Inr (Some color)"
  by (simp add: getProxyColor_def)

lemma white_detectBody_indep:
  assumes "mode color = Oklch" "get_l color = Some 1" "get_c color = Some 0" "sameButXyz65 A B"
  shows "detectBody A color = detectBody B color"
proof -
  have r: "rgb A = rgb B" and p: "p3 A = p3 B"
    using assms(4) by (auto simp: sameButXyz65_def rgb_def p3_def convert_def fun_eq_iff)
  have g: "andInGamut A = andInGamut B"
    by (auto simp: andInGamut_def isInGamut_def r fun_eq_iff split: option.splits)
  show ?thesis
    unfolding detectBody_def white_proxy[OF assms(1-3), of A] white_proxy[OF assms(1-3), of B] r p g
    by (rule refl)
qed

lemma sample_rgb_white:
  "rgb sample_adapter whiteOklch
     = Inr (Some \<lparr>mode = Rgb, ch1 = Some 1, ch2 = Some 1, ch3 = Some 1, alpha = None\<rparr>)"
  by (simp add: lib_defs sample_defs whiteOklch_def)

lemma sample_p3_white:
  "p3 sample_adapter whiteOklch
     = Inr (Some \<lparr>mode = P3, ch1 = Some 1, ch2 = Some 1, ch3 = Some 1, alpha = None\<rparr>)"
  by (simp add: lib_defs sample_defs whiteOklch_def)

text \<open>
  Claim C9. A color in OKLCH with lightness 1 and chroma 0 is its own proxy: the
  converter to XYZ D65 is not consulted, so the report is the same for any two libraries
  that differ in that converter only (it may even throw). The report is \<open>srgb\<close> as soon
  as the library converts this white to RGB channels within \<open>[-1e-6, 1 + 1e-6]\<close> and does
  not throw on the P3 conversion.
\<close>

theorem white_is_srgb:
  assumes "cache_ok A cache"
    and "mode color = Oklch" and "get_l color = Some 1" and "get_c color = Some 0"
    and "rgb A color = Inr rv" and "p3 A color = Inr pv"
    and "channelsWithin (- (1 / 1000000)) (1 + 1 / 1000000) rv"
  shows "originalSpace (fst (detectColorSpace A cache color)) = SpaceSrgb
         \<and> getProxyColor A color = Inr (Some color)
         \<and> (\<forall>B. sameButXyz65 A B \<longrightarrow> detectBody B color = detectBody A color)"
  using detect_cached[OF assms(1) detectBody_proxy[OF white_proxy[OF assms(2-4)] assms(5,6)]]
        assms(7) white_proxy[OF assms(2-4), of A] white_detectBody_indep[OF assms(2-4)]
  by (auto simp: Let_def)

theorem white_is_srgb_witness:
  "originalSpace (fst (detectColorSpace sample_adapter Map.empty whiteOklch)) = SpaceSrgb
   \<and> getProxyColor sample_adapter whiteOklch = Inr (Some whiteOklch)
   \<and> detectBody (sample_adapter\<lparr>lib_convert :=
          \<lambda>m c. if m = Xyz65 then Inl LibraryError else lib_convert sample_adapter m c\<rparr>) whiteOklch
       = detectBody sample_adapter whiteOklch"
proof -
  have w: "channelsWithin (- (1 / 1000000)) (1 + 1 / 1000000)
             (Some \<lparr>mode = Rgb, ch1 = Some 1, ch2 = Some 1, ch3 = Some 1, alpha = None\<rparr>)"
    by (simp add: channelsWithin_def or0_def)
  have m: "mode whiteOklch = Oklch" "get_l whiteOklch = Some 1" "get_c whiteOklch = Some 0"
    by (simp_all add: whiteOklch_def getter_defs)
  have s: "sameButXyz65 sample_adapter (sample_adapter\<lparr>lib_convert :=
          \<lambda>m c. if m = Xyz65 then Inl LibraryError else lib_convert sample_adapter m c\<rparr>)"
    by (simp add: sameButXyz65_def fun_eq_iff)
  show ?thesis
    using white_is_srgb [OF cache_ok_empty m sample_rgb_white sample_p3_white w] s
    by simp
qed


section \<open>Gamut mapping\<close>

lemma nt_convert:
  assumes "neverThrows A"
  shows "\<exists>r. convert A m c = Inr r"
proof -
  obtain r where "lib_convert A m c = Inr r"
    using assms unfolding neverThrows_def by blast
  then show ?thesis by (simp add: convert_def bindE_def)
qed

lemma nt_rgb_nullable: "neverThrows A \<Longrightarrow> \<exists>r. rgb_nullable A x = Inr r"
  using nt_convert[of A Rgb] by (cases x) (auto simp: rgb_nullable_def rgb_def)

lemma rgb_nullable_Some: "rgb_nullable A x = Inr (Some t) \<Longrightarrow> \<exists>y. x = Some y \<and> rgb A y = Inr (Some t)"
  by (cases x) (auto simp: rgb_nullable_def)

lemma isInGamut_rgb_mode: "mode t = Rgb \<Longrightarrow> isInGamut A t e = Inr (inRgbRange t e)"
  by (simp add: isInGamut_def)

lemma rgb_mode: "rgb A y = Inr (Some t) \<Longrightarrow> mode t = Rgb"
  by (simp add: rgb_def convert_mode)

lemma black_inGamut: "isInGamut A black EPSILON = Inr True"
  by (simp add: isInGamut_def black_def inRgbRange_def EPSILON_def getter_defs or0_def)

lemma findLoop_spec:
  "neverThrows A \<Longrightarrow> c = 2 * step \<Longrightarrow> c \<le> c0 \<Longrightarrow>
         \<exists>res. findLoop A l c h step = Inr res \<and> mode res = Rgb
            \<and> isInGamut A res EPSILON = Inr True
            \<and> (res = black \<or>
                (\<exists>c' t. 0 < c' \<and> c' \<le> c0
                   \<and> oklch A \<lparr>mode = Oklch, ch1 = l, ch2 = Some c', ch3 = h, alpha = None\<rparr> = Inr (Some t)
                   \<and> rgb A t = Inr (Some res)))"
proof (induction A l c h step rule: findLoop.induct)
  case (1 A l c h step)
  note nt = "1.prems"(1)
  show ?case
  proof (cases "1 / 1000000 < step")
    case False
    then have "findLoop A l c h step = Inr black" by (simp add: findLoop.simps)
    then show ?thesis using black_inGamut by (auto simp: black_def)
  next
    case True
    have next_ok: "c - step = 2 * (step / 2)" "c - step \<le> c0"
      using "1.prems" True by simp_all
    note ih = "1.IH"(1)[OF True nt next_ok]
    obtain tc where tc: "oklch A \<lparr>mode = Oklch, ch1 = l, ch2 = Some c, ch3 = h, alpha = None\<rparr> = Inr tc"
      using nt_convert[OF nt] unfolding oklch_def by blast
    obtain rt where rt: "rgb_nullable A tc = Inr rt"
      using nt_rgb_nullable[OF nt] by blast
    show ?thesis
    proof (cases rt)
      case None
      then have "findLoop A l c h step = findLoop A l (c - step) h (step / 2)"
        using True tc rt by (subst findLoop.simps) (simp add: bindE_def)
      then show ?thesis using ih by simp
    next
      case (Some t)
      obtain y where y: "tc = Some y" "rgb A y = Inr (Some t)"
        using rgb_nullable_Some rt Some by blast
      have mt: "mode t = Rgb" using y(2) by (rule rgb_mode)
      have g: "isInGamut A t EPSILON = Inr (inRgbRange t EPSILON)"
        using mt by (rule isInGamut_rgb_mode)
      show ?thesis
      proof (cases "inRgbRange t EPSILON")
        case False
        then have "findLoop A l c h step = findLoop A l (c - step) h (step / 2)"
          using True tc rt Some g by (subst findLoop.simps) (simp add: bindE_def)
        then show ?thesis using ih by simp
      next
        case inr: True
        then have f: "findLoop A l c h step = Inr t"
          using True tc rt Some g by (subst findLoop.simps) (simp add: bindE_def)
        have "0 < c" "c \<le> c0" using "1.prems" True by simp_all
        then show ?thesis using f mt g inr tc y by auto
      qed
    qed
  qed
qed

lemma findClosestInGamut_spec:
  assumes "neverThrows A"
  shows "\<exists>res. findClosestInGamut A color = Inr res
           \<and> mode res = Rgb
           \<and> isInGamut A res (1 / 1000000) = Inr True
           \<and> (oklch A color = Inr None \<longrightarrow> res = black)
           \<and> (res = black \<or> (\<exists>ok. oklch A color = Inr (Some ok) \<and> reducedChroma A ok res))"
proof -
  obtain o' where o: "oklch A color = Inr o'"
    using nt_convert[OF assms] unfolding oklch_def by blast
  show ?thesis
  proof (cases o')
    case None
    then show ?thesis using o black_inGamut
      by (auto simp: findClosestInGamut_def bindE_def black_def EPSILON_def)
  next
    case (Some ok)
    show ?thesis
    proof (cases "get_c ok")
      case None
      then show ?thesis using o Some black_inGamut
        by (auto simp: findClosestInGamut_def bindE_def black_def EPSILON_def)
    next
      case (Some c)
      have f: "findClosestInGamut A color = findLoop A (get_l ok) c (get_h ok) (c / 2)"
        using o \<open>o' = Some ok\<close> Some by (simp add: findClosestInGamut_def bindE_def)
      from findLoop_spec[OF assms, of c "c / 2" c "get_l ok" "get_h ok"]
      obtain res where r: "findLoop A (get_l ok) c (get_h ok) (c / 2) = Inr res" "mode res = Rgb"
          "isInGamut A res EPSILON = Inr True"
          "res = black \<or> (\<exists>c' t. 0 < c' \<and> c' \<le> c
             \<and> oklch A \<lparr>mode = Oklch, ch1 = get_l ok, ch2 = Some c', ch3 = get_h ok, alpha = None\<rparr> = Inr (Some t)
             \<and> rgb A t = Inr (Some res))"
        by auto
      have "res = black \<or> reducedChroma A ok res"
        using r(4) Some unfolding reducedChroma_def by blast
      then show ?thesis using f r(1-3) o \<open>o' = Some ok\<close>
        by (auto simp: EPSILON_def)
    qed
  qed
qed

lemma chromaTest_mode: "chromaTest A l h c = Some t \<Longrightarrow> mode t = Rgb"
proof -
  assume a: "chromaTest A l h c = Some t"
  let ?o = "oklch A \<lparr>mode = Oklch, ch1 = l, ch2 = Some c, ch3 = h, alpha = None\<rparr>"
  from a have "bindE ?o (rgb_nullable A) = Inr (Some t)"
    by (auto simp: chromaTest_def split: sum.splits option.splits if_splits)
  then obtain x where "rgb_nullable A x = Inr (Some t)"
    by (cases ?o) (auto simp: bindE_def)
  then show ?thesis using rgb_nullable_Some rgb_mode by blast
qed

lemma chromaTest_inGamut: "chromaTest A l h c = Some t \<Longrightarrow> isInGamut A t EPSILON = Inr True"
  by (auto simp: chromaTest_def split: sum.splits option.splits if_splits)

lemma chromaTest_conversion:
  "chromaTest A l h c = Some res \<Longrightarrow>
     \<exists>t. oklch A \<lparr>mode = Oklch, ch1 = l, ch2 = Some c, ch3 = h, alpha = None\<rparr> = Inr (Some t)
        \<and> rgb A t = Inr (Some res)"
proof -
  assume a: "chromaTest A l h c = Some res"
  let ?o = "oklch A \<lparr>mode = Oklch, ch1 = l, ch2 = Some c, ch3 = h, alpha = None\<rparr>"
  from a have b: "bindE ?o (rgb_nullable A) = Inr (Some res)"
    by (auto simp: chromaTest_def split: sum.splits option.splits if_splits)
  then obtain x where x: "?o = Inr x" "rgb_nullable A x = Inr (Some res)"
    by (cases ?o) (auto simp: bindE_def)
  then show ?thesis using rgb_nullable_Some by blast
qed

lemma findLoop_round:
  assumes nt: "neverThrows A"
  shows "findLoop A l c h step =
           (if 1 / 1000000 < step
            then (case chromaTest A l h c of
                    Some t \<Rightarrow> Inr t
                  | None \<Rightarrow> findLoop A l (c - step) h (step / 2))
            else Inr black)"
proof (cases "1 / 1000000 < step")
  case False
  then show ?thesis by (simp add: findLoop.simps)
next
  case True
  obtain tc where tc: "oklch A \<lparr>mode = Oklch, ch1 = l, ch2 = Some c, ch3 = h, alpha = None\<rparr> = Inr tc"
    using nt_convert[OF nt] unfolding oklch_def by blast
  obtain rt where rt: "rgb_nullable A tc = Inr rt"
    using nt_rgb_nullable[OF nt] by blast
  show ?thesis
  proof (cases rt)
    case None
    then show ?thesis using True tc rt
      by (subst findLoop.simps) (simp add: bindE_def chromaTest_def)
  next
    case (Some t)
    obtain y where y: "tc = Some y" "rgb A y = Inr (Some t)"
      using rgb_nullable_Some rt Some by blast
    have g: "isInGamut A t EPSILON = Inr (inRgbRange t EPSILON)"
      using rgb_mode[OF y(2)] by (rule isInGamut_rgb_mode)
    show ?thesis using True tc rt Some g
      by (subst findLoop.simps) (simp add: bindE_def chromaTest_def)
  qed
qed

lemma findLoop_none:
  "neverThrows A \<Longrightarrow> c = 2 * step \<Longrightarrow>
     (\<forall>k. 1 / 1000000 < step / 2 ^ k \<longrightarrow> chromaTest A l h (c / 2 ^ k) = None) \<Longrightarrow>
     findLoop A l c h step = Inr black"
proof (induction A l c h step rule: findLoop.induct)
  case (1 A l c h step)
  note nt = "1.prems"(1)
  show ?case
  proof (cases "1 / 1000000 < step")
    case False
    then show ?thesis by (simp add: findLoop.simps)
  next
    case True
    have t0: "chromaTest A l h c = None"
      using "1.prems"(3)[rule_format, of 0] True by simp
    have nxt: "c - step = 2 * (step / 2)" using "1.prems"(2) by simp
    have all: "\<forall>k. 1 / 1000000 < step / 2 / 2 ^ k \<longrightarrow> chromaTest A l h ((c - step) / 2 ^ k) = None"
    proof (intro allI impI)
      fix k assume "1 / 1000000 < step / 2 / 2 ^ k"
      then have "1 / 1000000 < step / 2 ^ Suc k" by simp
      then have "chromaTest A l h (c / 2 ^ Suc k) = None" using "1.prems"(3) by blast
      moreover have "(c - step) / 2 ^ k = c / 2 ^ Suc k" using "1.prems"(2) by simp
      ultimately show "chromaTest A l h ((c - step) / 2 ^ k) = None" by simp
    qed
    have "findLoop A l c h step = findLoop A l (c - step) h (step / 2)"
      using True t0 by (subst findLoop_round[OF nt]) simp
    then show ?thesis using "1.IH" True nt nxt all by simp
  qed
qed

lemma step_above: "(1::real) / 1000000 < step / 2 ^ k \<Longrightarrow> 1 / 1000000 < step"
proof -
  assume a: "(1::real) / 1000000 < step / 2 ^ k"
  have p: "(1::real) \<le> 2 ^ k" by simp
  have s: "0 < step"
  proof (rule ccontr)
    assume "\<not> 0 < step"
    then have "step / 2 ^ k \<le> 0" by (simp add: divide_nonpos_pos)
    then show False using a by simp
  qed
  have "step / 2 ^ k \<le> step / 1" using p s by (intro divide_left_mono) simp_all
  then have le: "step / 2 ^ k \<le> step" by simp
  show ?thesis using a le by (rule less_le_trans)
qed

lemma findLoop_first:
  "neverThrows A \<Longrightarrow> c = 2 * step \<Longrightarrow> 1 / 1000000 < step / 2 ^ k \<Longrightarrow>
     chromaTest A l h (c / 2 ^ k) = Some res \<Longrightarrow>
     (\<forall>j<k. chromaTest A l h (c / 2 ^ j) = None) \<Longrightarrow>
     findLoop A l c h step = Inr res"
proof (induction k arbitrary: c step)
  case 0
  then show ?case by (subst findLoop_round) simp_all
next
  case (Suc k)
  have big: "1 / 1000000 < step" using Suc.prems(3) by (rule step_above)
  have t0: "chromaTest A l h c = None" using Suc.prems(5)[rule_format, of 0] by simp
  have e: "findLoop A l c h step = findLoop A l (c - step) h (step / 2)"
    using big t0 by (subst findLoop_round[OF Suc.prems(1)]) simp
  have half: "c - step = 2 * (step / 2)" using Suc.prems(2) by simp
  have sh: "\<And>j. (c - step) / 2 ^ j = c / 2 ^ Suc j" using Suc.prems(2) by simp
  have g: "1 / 1000000 < step / 2 / 2 ^ k" using Suc.prems(3) by simp
  have t: "chromaTest A l h ((c - step) / 2 ^ k) = Some res" using Suc.prems(4) sh by simp
  have n: "\<forall>j<k. chromaTest A l h ((c - step) / 2 ^ j) = None"
  proof (intro allI impI)
    fix j assume "j < k"
    then have "Suc j < Suc k" by simp
    then have "chromaTest A l h (c / 2 ^ Suc j) = None" using Suc.prems(5) by blast
    then show "chromaTest A l h ((c - step) / 2 ^ j) = None" using sh by simp
  qed
  show ?case using Suc.IH[OF Suc.prems(1) half g t n] e by simp
qed

lemma findLoop_exact:
  assumes nt: "neverThrows A" and c: "c = 2 * step"
  shows "\<exists>res. findLoop A l c h step = Inr res
           \<and> (if \<forall>k. 1 / 1000000 < step / 2 ^ k \<longrightarrow> chromaTest A l h (c / 2 ^ k) = None
               then res = black
               else \<exists>k. 1 / 1000000 < step / 2 ^ k \<and> chromaTest A l h (c / 2 ^ k) = Some res
                      \<and> (\<forall>j<k. chromaTest A l h (c / 2 ^ j) = None))"
proof (cases "\<forall>k. 1 / 1000000 < step / 2 ^ k \<longrightarrow> chromaTest A l h (c / 2 ^ k) = None")
  case True
  then show ?thesis using findLoop_none[OF nt c] by simp
next
  case False
  define P where "P k = (1 / 1000000 < step / 2 ^ k \<and> chromaTest A l h (c / 2 ^ k) \<noteq> None)" for k
  from False have ex: "\<exists>k. P k" unfolding P_def by blast
  define k where "k = (LEAST k. P k)"
  have pk: "P k" unfolding k_def using ex by (metis LeastI)
  have least: "\<And>j. j < k \<Longrightarrow> \<not> P j" unfolding k_def by (rule not_less_Least)
  have sk: "1 / 1000000 < step / 2 ^ k" using pk unfolding P_def by simp
  have s: "1 / 1000000 < step" using sk by (rule step_above)
  obtain res where res: "chromaTest A l h (c / 2 ^ k) = Some res" using pk unfolding P_def by auto
  have before: "\<forall>j<k. chromaTest A l h (c / 2 ^ j) = None"
  proof (intro allI impI)
    fix j assume jk: "j < k"
    have "(2::real) ^ j \<le> 2 ^ k" using jk by simp
    then have le: "step / 2 ^ k \<le> step / 2 ^ j" using s by (intro divide_left_mono) simp_all
    have "1 / 1000000 < step / 2 ^ j" using sk le by (rule less_le_trans)
    then show "chromaTest A l h (c / 2 ^ j) = None" using least[OF jk] unfolding P_def by simp
  qed
  have "findLoop A l c h step = Inr res" using findLoop_first[OF nt c sk res before] .
  then show ?thesis using False sk res before by auto
qed


lemma firstInGamut_reduced: "firstInGamut A ok res \<Longrightarrow> reducedChroma A ok res"
proof -
  assume "firstInGamut A ok res"
  then obtain c k where ck: "get_c ok = Some c" "1 / 1000000 < c / 2 / 2 ^ k"
      "chromaTest A (get_l ok) (get_h ok) (c / 2 ^ k) = Some res"
    unfolding firstInGamut_def by blast
  have half: "1 / 1000000 < c / 2" using ck(2) by (rule step_above)
  then have cpos: "0 < c" by simp
  have pos: "0 < c / 2 ^ k" using cpos by simp
  have "c / 2 ^ k \<le> c / 1" using cpos by (intro divide_left_mono) simp_all
  then have le: "c / 2 ^ k \<le> c" by simp
  from chromaTest_conversion[OF ck(3)] obtain t where
    "oklch A \<lparr>mode = Oklch, ch1 = get_l ok, ch2 = Some (c / 2 ^ k), ch3 = get_h ok, alpha = None\<rparr>
       = Inr (Some t)" "rgb A t = Inr (Some res)"
    by blast
  then show ?thesis unfolding reducedChroma_def using ck(1) pos le by blast
qed

lemma findClosestInGamut_exact:
  assumes nt: "neverThrows A"
  shows "\<exists>res. findClosestInGamut A color = Inr res
           \<and> mode res = Rgb
           \<and> isInGamut A res (1 / 1000000) = Inr True
           \<and> (oklch A color = Inr None \<longrightarrow> res = black)
           \<and> (\<forall>ok. oklch A color = Inr (Some ok) \<longrightarrow>
                 (if noneInGamut A ok then res = black
                  else firstInGamut A ok res \<and> reducedChroma A ok res))"
proof -
  obtain res where res: "findClosestInGamut A color = Inr res" "mode res = Rgb"
      "isInGamut A res (1 / 1000000) = Inr True" "oklch A color = Inr None \<longrightarrow> res = black"
    using findClosestInGamut_spec[OF nt, of color] by blast
  have "(if noneInGamut A ok then res = black
         else firstInGamut A ok res \<and> reducedChroma A ok res)"
    if o: "oklch A color = Inr (Some ok)" for ok
  proof (cases "get_c ok")
    case None
    then have "noneInGamut A ok" by (simp add: noneInGamut_def)
    moreover have "res = black"
      using res(1) o None by (simp add: findClosestInGamut_def bindE_def)
    ultimately show ?thesis by simp
  next
    case (Some c)
    let ?l = "get_l ok" and ?h = "get_h ok"
    let ?Q = "\<forall>k. 1 / 1000000 < c / 2 / 2 ^ k \<longrightarrow> chromaTest A ?l ?h (c / 2 ^ k) = None"
    have f: "findLoop A ?l c ?h (c / 2) = Inr res"
      using res(1) o Some by (simp add: findClosestInGamut_def bindE_def)
    have n: "noneInGamut A ok = ?Q"
      using Some by (simp add: noneInGamut_def)
    have c2: "c = 2 * (c / 2)" by simp
    from findLoop_exact[OF nt c2, of ?l ?h] obtain r where
      r: "findLoop A ?l c ?h (c / 2) = Inr r"
         "if ?Q then r = black
          else \<exists>k. 1 / 1000000 < c / 2 / 2 ^ k \<and> chromaTest A ?l ?h (c / 2 ^ k) = Some r
                 \<and> (\<forall>j<k. chromaTest A ?l ?h (c / 2 ^ j) = None)"
      by blast
    have rr: "r = res" using r(1) f by simp
    show ?thesis
    proof (cases "noneInGamut A ok")
      case True
      with n have q: ?Q by blast
      have "r = black" by (rule r(2)[unfolded if_P[OF q]])
      then show ?thesis using True rr by simp
    next
      case False
      with n have nq: "\<not> ?Q" by blast
      have "\<exists>k. 1 / 1000000 < c / 2 / 2 ^ k \<and> chromaTest A ?l ?h (c / 2 ^ k) = Some r
                 \<and> (\<forall>j<k. chromaTest A ?l ?h (c / 2 ^ j) = None)"
        by (rule r(2)[unfolded if_not_P[OF nq]])
      then have fi: "firstInGamut A ok res" unfolding firstInGamut_def rr using Some by blast
      then show ?thesis using False firstInGamut_reduced by simp
    qed
  qed
  then show ?thesis using res by blast
qed

lemma firstInGamut_unique:
  assumes "firstInGamut A ok r" and "firstInGamut A ok r'"
  shows "r = r'"
proof -
  let ?t = "chromaTest A (get_l ok) (get_h ok)"
  obtain c k where a: "get_c ok = Some c" "?t (c / 2 ^ k) = Some r" "\<forall>j<k. ?t (c / 2 ^ j) = None"
    using assms(1) unfolding firstInGamut_def by blast
  obtain c' k' where b: "get_c ok = Some c'" "?t (c' / 2 ^ k') = Some r'"
      "\<forall>j<k'. ?t (c' / 2 ^ j) = None"
    using assms(2) unfolding firstInGamut_def by blast
  have cc: "c' = c" using a(1) b(1) by simp
  have "\<not> k < k'" using a(2) b(3) cc by auto
  moreover have "\<not> k' < k" using b(2) a(3) cc by auto
  ultimately have "k = k'" by simp
  then show ?thesis using a(2) b(2) cc by simp
qed

lemma sample_neverThrows: "neverThrows sample_adapter"
  by (simp add: neverThrows_def sample_adapter_def sample_convert_def)

lemma sample_findClosest_faint: "findClosestInGamut sample_adapter faintOklch = Inr black"
proof -
  have a: "findLoop sample_adapter (Some (1 / 2)) (1 / 500000) (Some 0) (1 / 1000000) = Inr black"
    by (subst findLoop.simps) simp
  have "findLoop sample_adapter (Some (1 / 2)) (1 / 250000) (Some 0) (1 / 500000)
          = findLoop sample_adapter (Some (1 / 2)) (1 / 500000) (Some 0) (1 / 1000000)"
    by (subst findLoop.simps) (simp add: lib_defs sample_defs)
  then show ?thesis
    using a by (simp add: findClosestInGamut_def lib_defs sample_defs faintOklch_def getter_defs)
qed

lemma relabel_neverThrows: "neverThrows relabel_adapter"
  by (simp add: neverThrows_def relabel_adapter_def)

lemma relabel_findClosest_vivid:
  "findClosestInGamut relabel_adapter vividOklch
     = Inr \<lparr>mode = Rgb, ch1 = Some (1 / 2), ch2 = Some 1, ch3 = Some 0, alpha = None\<rparr>"
proof -
  have a: "findLoop relabel_adapter (Some (1 / 2)) 1 (Some 0) (1 / 2)
             = Inr \<lparr>mode = Rgb, ch1 = Some (1 / 2), ch2 = Some 1, ch3 = Some 0, alpha = None\<rparr>"
    by (subst findLoop.simps)
       (simp add: lib_defs relabel_adapter_def isInGamut_def inRgbRange_def EPSILON_def getter_defs
          or0_def)
  have b: "findLoop relabel_adapter (Some (1 / 2)) 2 (Some 0) 1
             = findLoop relabel_adapter (Some (1 / 2)) 1 (Some 0) (1 / 2)"
    by (subst findLoop.simps)
       (simp add: lib_defs relabel_adapter_def isInGamut_def inRgbRange_def EPSILON_def getter_defs
          or0_def)
  have c: "findLoop relabel_adapter (Some (1 / 2)) 4 (Some 0) 2
             = findLoop relabel_adapter (Some (1 / 2)) 2 (Some 0) 1"
    by (subst findLoop.simps)
       (simp add: lib_defs relabel_adapter_def isInGamut_def inRgbRange_def EPSILON_def getter_defs
          or0_def)
  show ?thesis
    using a b c
    by (simp add: findClosestInGamut_def lib_defs relabel_adapter_def vividOklch_def getter_defs)
qed

lemma sample_oklch_white:
  "oklch sample_adapter whiteRgb
     = Inr (Some \<lparr>mode = Oklch, ch1 = Some 1, ch2 = Some 0, ch3 = None, alpha = None\<rparr>)"
  by (simp add: lib_defs sample_defs whiteRgb_def)

lemma sample_oklch_black:
  "oklch sample_adapter black
     = Inr (Some \<lparr>mode = Oklch, ch1 = Some 0, ch2 = Some 0, ch3 = None, alpha = None\<rparr>)"
  by (simp add: lib_defs sample_defs black_def)

lemma sample_findClosest_white: "findClosestInGamut sample_adapter whiteRgb = Inr black"
proof -
  have "findLoop sample_adapter (Some 1) 0 None 0 = Inr black"
    by (subst findLoop.simps) simp
  then show ?thesis
    by (simp add: findClosestInGamut_def sample_oklch_white bindE_def getter_defs)
qed

lemma sample_white_inGamut: "isInGamut sample_adapter whiteRgb (1 / 1000000) = Inr True"
  by (simp add: isInGamut_def whiteRgb_def inRgbRange_def getter_defs or0_def)

text \<open>
  Claim C4, as stated, fails. White is an sRGB color inside the gamut, with the OKLCH
  lightness 1 and the chroma 0. The first step of the search is half the chroma, so for
  a chroma of at most \<open>2e-6\<close> the loop is not entered and the result is the initial black,
  whose lightness is 0: the lightness is not unchanged.
\<close>

theorem white_to_black_counterexample:
  "isInGamut sample_adapter whiteRgb (1 / 1000000) = Inr True
   \<and> oklch sample_adapter whiteRgb
       = Inr (Some \<lparr>mode = Oklch, ch1 = Some 1, ch2 = Some 0, ch3 = None, alpha = None\<rparr>)
   \<and> findClosestInGamut sample_adapter whiteRgb = Inr black
   \<and> oklch sample_adapter black
       = Inr (Some \<lparr>mode = Oklch, ch1 = Some 0, ch2 = Some 0, ch3 = None, alpha = None\<rparr>)"
  by (simp add: sample_white_inGamut sample_oklch_white sample_findClosest_white sample_oklch_black)

text \<open>
  Claim C4, amended. With a library that does not throw, \<open>findClosestInGamut\<close> returns a
  color of mode \<open>rgb\<close> that passes the in-gamut test with tolerance \<open>1e-6\<close>. It is black
  when the conversion of the input to OKLCH fails, and when no round of the search
  succeeds (in particular when the chroma is undefined or at most \<open>2e-6\<close>). Otherwise it
  is the result of the first round that succeeds: the RGB conversion of the OKLCH color
  with the lightness and hue of the converted input and the chroma \<open>c / 2^k\<close>, which is
  above 0 and at most the input's chroma \<open>c\<close>. By \<open>firstInGamut_unique\<close> this determines
  the result. How close the library's conversion back to OKLCH comes to that lightness,
  chroma and hue is a property of the library.
\<close>

theorem mapToGamut_result:
  assumes "neverThrows A"
  shows "\<exists>res. findClosestInGamut A color = Inr res
           \<and> mode res = Rgb
           \<and> isInGamut A res (1 / 1000000) = Inr True
           \<and> (oklch A color = Inr None \<longrightarrow> res = black)
           \<and> (\<forall>ok. oklch A color = Inr (Some ok) \<longrightarrow>
                 (if noneInGamut A ok then res = black
                  else firstInGamut A ok res \<and> reducedChroma A ok res))"
  using assms by (rule findClosestInGamut_exact)

lemma relabel_oklch_vivid: "oklch relabel_adapter vividOklch = Inr (Some vividOklch)"
  by (simp add: lib_defs relabel_adapter_def vividOklch_def)

lemma relabel_chromaTest_1:
  "chromaTest relabel_adapter (Some (1 / 2)) (Some 0) 1
     = Some \<lparr>mode = Rgb, ch1 = Some (1 / 2), ch2 = Some 1, ch3 = Some 0, alpha = None\<rparr>"
  by (simp add: chromaTest_def lib_defs relabel_adapter_def rgb_nullable_def isInGamut_def
        inRgbRange_def EPSILON_def getter_defs or0_def)

lemma relabel_some_inGamut: "\<not> noneInGamut relabel_adapter vividOklch"
proof
  assume "noneInGamut relabel_adapter vividOklch"
  then have "get_c vividOklch = Some 4 \<and> (1::real) / 1000000 < 4 / 2 / 2 ^ 2
      \<longrightarrow> chromaTest relabel_adapter (get_l vividOklch) (get_h vividOklch) (4 / 2 ^ 2) = None"
    unfolding noneInGamut_def by blast
  then show False
    using relabel_chromaTest_1 by (simp add: vividOklch_def getter_defs)
qed

lemma sample_oklch_faint: "oklch sample_adapter faintOklch = Inr (Some faintOklch)"
  by (simp add: lib_defs sample_defs faintOklch_def)

lemma sample_none_inGamut: "noneInGamut sample_adapter faintOklch"
  by (simp add: noneInGamut_def chromaTest_def lib_defs sample_defs rgb_nullable_def
        faintOklch_def getter_defs isGrayRow_def grayChannels_def)

lemma sample_oklch_chromatic: "oklch sample_adapter chromaticP3 = Inr None"
  by (simp add: lib_defs sample_defs chromaticP3_def isGrayRow_def grayChannels_def)

theorem mapToGamut_result_witness:
  "findClosestInGamut relabel_adapter vividOklch
       = Inr \<lparr>mode = Rgb, ch1 = Some (1 / 2), ch2 = Some 1, ch3 = Some 0, alpha = None\<rparr>
   \<and> firstInGamut relabel_adapter vividOklch
         \<lparr>mode = Rgb, ch1 = Some (1 / 2), ch2 = Some 1, ch3 = Some 0, alpha = None\<rparr>
   \<and> reducedChroma relabel_adapter vividOklch
         \<lparr>mode = Rgb, ch1 = Some (1 / 2), ch2 = Some 1, ch3 = Some 0, alpha = None\<rparr>
   \<and> noneInGamut sample_adapter faintOklch
   \<and> findClosestInGamut sample_adapter faintOklch = Inr black
   \<and> oklch sample_adapter chromaticP3 = Inr None
   \<and> findClosestInGamut sample_adapter chromaticP3 = Inr black"
proof -
  let ?X = "\<lparr>mode = Rgb, ch1 = Some (1 / 2), ch2 = Some 1, ch3 = Some 0, alpha = None\<rparr>"
  have a: "firstInGamut relabel_adapter vividOklch ?X \<and> reducedChroma relabel_adapter vividOklch ?X"
    using mapToGamut_result [OF relabel_neverThrows, of vividOklch] relabel_findClosest_vivid
          relabel_oklch_vivid relabel_some_inGamut
    by auto
  have b: "findClosestInGamut sample_adapter faintOklch = Inr black"
    using mapToGamut_result [OF sample_neverThrows, of faintOklch] sample_oklch_faint
          sample_none_inGamut
    by auto
  have c: "findClosestInGamut sample_adapter chromaticP3 = Inr black"
    using mapToGamut_result [OF sample_neverThrows, of chromaticP3] sample_oklch_chromatic
    by auto
  show ?thesis
    using a b c relabel_findClosest_vivid sample_none_inGamut sample_oklch_chromatic by simp
qed

section \<open>Warning flags of the resolver\<close>

lemma nt_formatHexRGBA: "neverThrows A \<Longrightarrow> \<exists>s. formatHexRGBA A c = Inr s"
  using nt_convert[of A Rgb c]
  by (auto simp: formatHexRGBA_def rgb_def bindE_def split: option.splits)

lemma nt_formatPreview:
  assumes "neverThrows A"
  shows "\<exists>x. formatPreview A color sr = Inr x"
proof -
  obtain p where p: "(case rgbValues sr of Some v \<Rightarrow> Inr v | None \<Rightarrow> findClosestInGamut A color) = Inr p"
    using findClosestInGamut_spec[OF assms, of color] by (cases "rgbValues sr") auto
  obtain s where s: "formatHexRGBA A p = Inr s" using nt_formatHexRGBA[OF assms] by blast
  obtain ok where ok: "oklch A color = Inr ok" using nt_convert[OF assms] unfolding oklch_def by blast
  show ?thesis using p s ok by (simp add: formatPreview_def bindE_def)
qed

lemma formatColor_normal:
  assumes "formatPreview A color (fst (detectColorSpace A cache color)) = Inr (hex, ok)"
  shows "\<exists>v c2. formatColor A cache color fmt =
     (\<lparr>format = fmt, cd_value = v, hexValue = hex,
       gamut = (if isSRGBFormat fmt then SpaceSrgb
                else originalSpace (fst (detectColorSpace A cache color))),
       cd_fallbackSpace = (if isSRGBFormat fmt then SpaceSrgb
                else fallbackSpace (fst (detectColorSpace A cache color))),
       warnings = \<lparr>unsupported = False,
         fallback = (originalSpace (fst (detectColorSpace A cache color)) = SpaceOut \<and> isSRGBFormat fmt),
         outOfGamut = (originalSpace (fst (detectColorSpace A cache color)) = SpaceOut
                       \<and> fmt \<in> set [F_p3, F_vec, F_lrgb])\<rparr>\<rparr>, c2)"
  using assms
  by (cases "detectColorSpace A cache color") (auto simp: formatColor_def Let_def split: prod.splits)

lemma formatColor_caught:
  assumes "formatPreview A color (fst (detectColorSpace A cache color)) = Inl e"
  shows "formatColor A cache color fmt = (formatCaught fmt, snd (detectColorSpace A cache color))"
  using assms
  by (cases "detectColorSpace A cache color") (auto simp: formatColor_def Let_def split: prod.splits)

lemma warnings_normal:
  assumes "neverThrows A"
  shows "warnings (fst (formatColor A cache color fmt)) =
     \<lparr>unsupported = False,
      fallback = (originalSpace (fst (detectColorSpace A cache color)) = SpaceOut \<and> isSRGBFormat fmt),
      outOfGamut = (originalSpace (fst (detectColorSpace A cache color)) = SpaceOut
                       \<and> fmt \<in> set [F_p3, F_vec, F_lrgb])\<rparr>"
proof -
  obtain hex ok where "formatPreview A color (fst (detectColorSpace A cache color)) = Inr (hex, ok)"
    using nt_formatPreview[OF assms] by (metis surj_pair)
  from formatColor_normal[OF this, of fmt] show ?thesis by auto
qed

text \<open>
  Claim C2, amended. With a library that does not throw, the resolver sets
  \<open>fallback\<close> exactly when the detected space is \<open>out\<close> and the notation is one of
  \<open>rgb\<close>, \<open>hex\<close>, \<open>hex/rgba\<close>, \<open>hsl\<close>, and \<open>outOfGamut\<close> exactly when the detected
  space is \<open>out\<close> and the notation is one of \<open>p3\<close>, \<open>vec\<close>, \<open>lrgb\<close>. For \<open>figmaP3\<close>,
  \<open>oklch\<close> and \<open>oklab\<close>, and for every color detected as \<open>srgb\<close> or \<open>p3\<close>, both flags are
  false.
\<close>

theorem formatColor_warnings:
  assumes "neverThrows A"
  shows "let space = originalSpace (fst (detectColorSpace A cache color));
             w = warnings (fst (formatColor A cache color fmt))
         in fallback w = (space = SpaceOut \<and> fmt \<in> {F_rgb, F_hex, F_hex_rgba, F_hsl})
          \<and> outOfGamut w = (space = SpaceOut \<and> fmt \<in> {F_p3, F_vec, F_lrgb})"
  using warnings_normal[OF assms, of cache color fmt]
  by (simp add: Let_def isSRGBFormat_def srgbFormats_def)

lemma sample_detect_negGray:
  "originalSpace (fst (detectColorSpace sample_adapter Map.empty negGrayP3)) = SpaceOut"
  using detect_cached[OF cache_ok_empty detectBody_proxy[OF sample_proxy_negGray sample_rgb_negGrayProxy
          sample_p3_negGrayProxy]]
  by (simp add: Let_def channelsWithin_def negGrayP3_def or0_def)

text \<open>
  Claim C2, as stated, fails for the notation \<open>figmaP3\<close>: on a color outside both gamuts
  its \<open>outOfGamut\<close> flag is false.
\<close>

theorem figma_not_flagged_counterexample:
  "originalSpace (fst (detectColorSpace sample_adapter Map.empty negGrayP3)) = SpaceOut
   \<and> \<not> outOfGamut (warnings (fst (formatColor sample_adapter Map.empty negGrayP3 F_figmaP3)))"
  using warnings_normal[OF sample_neverThrows, of Map.empty negGrayP3 F_figmaP3] sample_detect_negGray
  by simp

theorem formatColor_warnings_witness:
  "fallback (warnings (fst (formatColor sample_adapter Map.empty negGrayP3 F_hex)))
   \<and> \<not> outOfGamut (warnings (fst (formatColor sample_adapter Map.empty negGrayP3 F_hex)))
   \<and> outOfGamut (warnings (fst (formatColor sample_adapter Map.empty negGrayP3 F_vec)))
   \<and> \<not> fallback (warnings (fst (formatColor sample_adapter Map.empty negGrayP3 F_vec)))"
  using formatColor_warnings [OF sample_neverThrows, of Map.empty negGrayP3 F_hex]
        formatColor_warnings [OF sample_neverThrows, of Map.empty negGrayP3 F_vec]
        sample_detect_negGray
  by (simp add: Let_def)


section \<open>Exceptions during resolution\<close>

lemma format_formatColor: "format (fst (formatColor A cache color fmt)) = fmt"
proof (cases "formatPreview A color (fst (detectColorSpace A cache color))")
  case (Inl e)
  then show ?thesis using formatColor_caught[OF Inl, of fmt] by (simp add: formatCaught_def)
next
  case (Inr x)
  obtain hex ok where "x = (hex, ok)" by (cases x)
  with Inr formatColor_normal[of A color cache hex ok fmt] show ?thesis by auto
qed

lemma format_formatEach: "map format (fst (formatEach A cache color fmts)) = fmts"
proof (induction fmts arbitrary: cache)
  case Nil
  show ?case by simp
next
  case (Cons f fs)
  obtain d c1 where d: "formatColor A cache color f = (d, c1)" by (cases "formatColor A cache color f")
  obtain ds c2 where ds: "formatEach A c1 color fs = (ds, c2)" by (cases "formatEach A c1 color fs")
  have "format d = f" using format_formatColor[of A cache color f] d by simp
  moreover have "map format ds = fs" using Cons.IH[of c1] ds by simp
  ultimately show ?case using d ds by simp
qed

lemma getFallback_caught:
  assumes "bindE (fst (detectColorSpaceAndFallback A cache color)) (getFallbackTry A color fmt cc) = Inl e"
  shows "fst (getFallback A cache color fmt cc) = (if fmt = F_hex then ''#000000'' else ''rgb(0, 0, 0)'')"
  using assms
  by (cases "detectColorSpaceAndFallback A cache color") (simp add: getFallback_def)

lemma formatColor_thrown:
  assumes "detectColorSpace A cache color = (sr, c1)" and "formatPreview A color sr = Inl e"
  shows "fst (formatColor A cache color fmt) = formatCaught fmt"
  using assms by (simp add: formatColor_def Let_def)

lemma formatColor_rendered:
  assumes "detectColorSpace A cache color = (sr, c1)" and "formatPreview A color sr = Inr (hex, ok)"
  shows "fst (formatColor A cache color fmt)
           = ordinaryRecord fmt sr hex
               (case renderText A c1 color fmt
                       \<lparr>cache_p3 = p3Values sr, cache_rgb = rgbValues sr, cache_oklch = ok\<rparr> of
                  Inr s \<Rightarrow> s
                | Inl e \<Rightarrow> if fmt = F_hex then ''#000000'' else ''rgb(0, 0, 0)'')"
  using assms
  by (cases "detectColorSpaceAndFallback A c1 color")
     (simp add: formatColor_def Let_def getFallback_def renderText_def ordinaryRecord_def)

text \<open>
  Claim C3, amended. \<open>formatColor\<close> returns a record in every case (its result type has
  no error), and the three cases below cover every run. When the computation of the
  preview throws (the gamut mapping, the hex text of the preview, or the OKLCH conversion
  for the cache argument), the record is the degraded one: text \<open>Invalid Color\<close>, preview
  \<open>#000000\<close>, gamut \<open>out\<close>, both warning flags true. When the preview is computed and the
  rendering of the text throws, the handler inside \<open>getFallback\<close> catches it: the record
  has the text \<open>#000000\<close> for \<open>hex\<close> and \<open>rgb(0, 0, 0)\<close> otherwise, and the ordinary
  preview, gamut and warning flags. When nothing throws the record has the rendered text.
  The orchestrator gets one record per requested notation, in the order requested.
\<close>

theorem formatColor_degraded:
  assumes "detectColorSpace A cache color = (sr, c1)"
  shows "(formatPreview A color sr = Inl e \<longrightarrow>
            fst (formatColor A cache color fmt)
              = \<lparr>format = fmt, cd_value = ''Invalid Color'', hexValue = ''#000000'',
                 gamut = SpaceOut, cd_fallbackSpace = SpaceSrgb,
                 warnings = \<lparr>unsupported = False, fallback = True, outOfGamut = True\<rparr>\<rparr>)
   \<and> (formatPreview A color sr = Inr (hex, ok)
        \<and> renderText A c1 color fmt
             \<lparr>cache_p3 = p3Values sr, cache_rgb = rgbValues sr, cache_oklch = ok\<rparr> = Inl e'
        \<longrightarrow> fst (formatColor A cache color fmt)
              = ordinaryRecord fmt sr hex (if fmt = F_hex then ''#000000'' else ''rgb(0, 0, 0)''))
   \<and> (formatPreview A color sr = Inr (hex, ok)
        \<and> renderText A c1 color fmt
             \<lparr>cache_p3 = p3Values sr, cache_rgb = rgbValues sr, cache_oklch = ok\<rparr> = Inr s
        \<longrightarrow> fst (formatColor A cache color fmt) = ordinaryRecord fmt sr hex s)
   \<and> map format (fst (formatEach A cache color fmts)) = fmts"
proof (intro conjI impI)
  assume "formatPreview A color sr = Inl e"
  then show "fst (formatColor A cache color fmt)
              = \<lparr>format = fmt, cd_value = ''Invalid Color'', hexValue = ''#000000'',
                 gamut = SpaceOut, cd_fallbackSpace = SpaceSrgb,
                 warnings = \<lparr>unsupported = False, fallback = True, outOfGamut = True\<rparr>\<rparr>"
    using formatColor_thrown[OF assms] by (simp add: formatCaught_def)
next
  assume "formatPreview A color sr = Inr (hex, ok)
        \<and> renderText A c1 color fmt
             \<lparr>cache_p3 = p3Values sr, cache_rgb = rgbValues sr, cache_oklch = ok\<rparr> = Inl e'"
  then show "fst (formatColor A cache color fmt)
              = ordinaryRecord fmt sr hex (if fmt = F_hex then ''#000000'' else ''rgb(0, 0, 0)'')"
    using formatColor_rendered[OF assms, of hex ok fmt] by simp
next
  assume "formatPreview A color sr = Inr (hex, ok)
        \<and> renderText A c1 color fmt
             \<lparr>cache_p3 = p3Values sr, cache_rgb = rgbValues sr, cache_oklch = ok\<rparr> = Inr s"
  then show "fst (formatColor A cache color fmt) = ordinaryRecord fmt sr hex s"
    using formatColor_rendered[OF assms, of hex ok fmt] by simp
next
  show "map format (fst (formatEach A cache color fmts)) = fmts"
    by (rule format_formatEach)
qed

lemma outReport_fields:
  "originalSpace outReport = SpaceOut" "fallbackSpace outReport = SpaceSrgb"
  "p3Values outReport = None" "rgbValues outReport = None"
  by (simp_all add: outReport_def)

lemma sample_detectBody_undefinedRed: "detectBody sample_adapter undefinedRedP3 = Inr outReport"
  by (rule detectBody_null)
     (simp add: getProxyColor_def lib_defs sample_defs undefinedRedP3_def getter_defs)

lemma sample_detect_undefinedRed:
  "detectColorSpace sample_adapter Map.empty undefinedRedP3
     = (outReport, [undefinedRedP3 \<mapsto> outReport])"
  by (simp add: detectColorSpace_def sample_detectBody_undefinedRed)

lemma sample_detect_undefinedRed_cached:
  "detectColorSpace sample_adapter [undefinedRedP3 \<mapsto> outReport] undefinedRedP3
     = (outReport, [undefinedRedP3 \<mapsto> outReport])"
  by (simp add: detectColorSpace_def)

lemma toHex_0: "toHex (Some 0) = ''00''"
  by (simp add: hex_defs)

lemma toHex_1: "toHex (Some 1) = ''FF''"
  by (simp add: hex_defs)

lemma sample_preview_undefinedRed:
  "formatPreview sample_adapter undefinedRedP3 outReport = Inr (''#000000FF'', None)"
  by (simp add: formatPreview_def outReport_fields findClosestInGamut_def formatHexRGBA_def lib_defs
        sample_defs undefinedRedP3_def black_def getter_defs alphaOr1_def toHex_0 toHex_1)

lemma sample_formatP3_undefinedRed: "formatP3 sample_adapter undefinedRedP3 = Inl TypeError"
  by (simp add: formatP3_def lib_defs sample_defs undefinedRedP3_def getter_defs toFixedE_def)

lemma sample_formatRGB_undefinedRed: "formatRGB sample_adapter undefinedRedP3 = Inr ''Invalid RGB''"
  by (simp add: formatRGB_def lib_defs sample_defs undefinedRedP3_def)

lemma sample_visible_undefinedRed:
  "fst (detectColorSpaceAndFallback sample_adapter [undefinedRedP3 \<mapsto> outReport] undefinedRedP3)
     = Inl TypeError"
  by (simp add: detectColorSpaceAndFallback_def sample_detect_undefinedRed_cached outReport_fields
        orColor_def sample_formatRGB_undefinedRed sample_formatP3_undefinedRed bindE_def)

lemma sample_formatColor_undefinedRed:
  "fst (formatColor sample_adapter Map.empty undefinedRedP3 F_p3)
     = \<lparr>format = F_p3, cd_value = ''rgb(0, 0, 0)'', hexValue = ''#000000FF'',
        gamut = SpaceOut, cd_fallbackSpace = SpaceSrgb,
        warnings = \<lparr>unsupported = False, fallback = False, outOfGamut = True\<rparr>\<rparr>"
proof -
  let ?cc = "\<lparr>cache_p3 = None, cache_rgb = None, cache_oklch = None\<rparr>"
  obtain v c2 where gf:
    "getFallback sample_adapter [undefinedRedP3 \<mapsto> outReport] undefinedRedP3 F_p3 ?cc = (v, c2)"
    by (cases "getFallback sample_adapter [undefinedRedP3 \<mapsto> outReport] undefinedRedP3 F_p3 ?cc")
  have "v = ''rgb(0, 0, 0)''"
    using getFallback_caught[of sample_adapter "[undefinedRedP3 \<mapsto> outReport]" undefinedRedP3
            F_p3 ?cc TypeError] gf
    by (simp add: sample_visible_undefinedRed bindE_def)
  then show ?thesis
    using gf
    by (simp add: formatColor_def sample_detect_undefinedRed sample_preview_undefinedRed Let_def
          isSRGBFormat_def srgbFormats_def outReport_fields)
qed

text \<open>
  Claim C3, as stated, fails: on a P3 color with an undefined red channel the \<open>p3\<close>
  renderer throws, and the record has the text \<open>rgb(0, 0, 0)\<close> with the \<open>fallback\<close> flag
  false, not the degraded record.
\<close>

theorem nested_handler_counterexample:
  "formatP3 sample_adapter undefinedRedP3 = Inl TypeError
   \<and> cd_value (fst (formatColor sample_adapter Map.empty undefinedRedP3 F_p3)) = ''rgb(0, 0, 0)''
   \<and> \<not> fallback (warnings (fst (formatColor sample_adapter Map.empty undefinedRedP3 F_p3)))"
  by (simp add: sample_formatP3_undefinedRed sample_formatColor_undefinedRed)

lemma throwing_preview:
  "formatPreview throwing_adapter negGrayP3 (fst (detectColorSpace throwing_adapter Map.empty negGrayP3))
     = Inl LibraryError"
  using detect_thrown[OF cache_ok_empty throwing_detectBody]
  by (simp add: formatPreview_def detectCaught_def findClosestInGamut_def lib_defs sample_defs)

lemma getFallbackTry_figma:
  "mode color = P3 \<Longrightarrow> getFallbackTry A color F_figmaP3 cc result = formatFigmaP3 A color"
  by (simp add: getFallbackTry_def getFallbackWide_def isSRGBFormat_def srgbFormats_def)

lemma figma_orange: "formatFigmaP3 A chromaticP3 = Inr ''#FF8000FF''"
  by (simp add: formatFigmaP3_def isFigmaOrange_def chromaticP3_def getter_defs)

lemma sample_detect_chromatic:
  "detectColorSpace sample_adapter Map.empty chromaticP3
     = (outReport, [chromaticP3 \<mapsto> outReport])"
  by (simp add: detectColorSpace_def detectBody_null[OF sample_proxy_chromatic])

lemma sample_preview_chromatic:
  "formatPreview sample_adapter chromaticP3 outReport = Inr (''#000000FF'', None)"
  by (simp add: formatPreview_def outReport_fields findClosestInGamut_def formatHexRGBA_def lib_defs
        sample_defs chromaticP3_def black_def getter_defs alphaOr1_def toHex_0 toHex_1)

lemma sample_formatP3_chromatic:
  "formatP3 sample_adapter chromaticP3 = Inr ''color(display-p3 1.0000 0.5020 0.0000)''"
  by (simp add: formatP3_def lib_defs sample_defs chromaticP3_def getter_defs toFixedE_def text_defs)

lemma sample_formatRGB_chromatic: "formatRGB sample_adapter chromaticP3 = Inr ''Invalid RGB''"
  by (simp add: formatRGB_def lib_defs sample_defs chromaticP3_def)

lemma sample_visible_chromatic:
  "\<exists>vv. fst (detectColorSpaceAndFallback sample_adapter [chromaticP3 \<mapsto> outReport] chromaticP3)
     = Inr vv"
  by (simp add: detectColorSpaceAndFallback_def detectColorSpace_def outReport_fields
        orColor_def sample_formatRGB_chromatic sample_formatP3_chromatic bindE_def)

lemma throwing_detect:
  "detectColorSpace throwing_adapter Map.empty negGrayP3 = (detectCaught, Map.empty)"
  using detect_thrown[OF cache_ok_empty throwing_detectBody] by simp

lemma throwing_preview2:
  "formatPreview throwing_adapter negGrayP3 detectCaught = Inl LibraryError"
  using throwing_preview by (simp add: throwing_detect)

lemma sample_render_undefinedRed:
  "renderText sample_adapter [undefinedRedP3 \<mapsto> outReport] undefinedRedP3 F_p3
     \<lparr>cache_p3 = None, cache_rgb = None, cache_oklch = None\<rparr> = Inl TypeError"
  by (simp add: renderText_def sample_visible_undefinedRed bindE_def)

lemma sample_render_chromatic:
  "renderText sample_adapter [chromaticP3 \<mapsto> outReport] chromaticP3 F_figmaP3
     \<lparr>cache_p3 = None, cache_rgb = None, cache_oklch = None\<rparr> = Inr ''#FF8000FF''"
proof -
  obtain vv where vv:
    "fst (detectColorSpaceAndFallback sample_adapter [chromaticP3 \<mapsto> outReport] chromaticP3) = Inr vv"
    using sample_visible_chromatic by blast
  have m: "mode chromaticP3 = P3" by (simp add: chromaticP3_def)
  show ?thesis
    by (simp add: renderText_def vv bindE_def getFallbackTry_figma[OF m] figma_orange)
qed

theorem formatColor_degraded_witness:
  "fst (formatColor throwing_adapter Map.empty negGrayP3 F_hsl)
     = \<lparr>format = F_hsl, cd_value = ''Invalid Color'', hexValue = ''#000000'',
        gamut = SpaceOut, cd_fallbackSpace = SpaceSrgb,
        warnings = \<lparr>unsupported = False, fallback = True, outOfGamut = True\<rparr>\<rparr>
   \<and> fst (formatColor sample_adapter Map.empty undefinedRedP3 F_p3)
     = \<lparr>format = F_p3, cd_value = ''rgb(0, 0, 0)'', hexValue = ''#000000FF'',
        gamut = SpaceOut, cd_fallbackSpace = SpaceSrgb,
        warnings = \<lparr>unsupported = False, fallback = False, outOfGamut = True\<rparr>\<rparr>
   \<and> fst (formatColor sample_adapter Map.empty chromaticP3 F_figmaP3)
     = \<lparr>format = F_figmaP3, cd_value = ''#FF8000FF'', hexValue = ''#000000FF'',
        gamut = SpaceOut, cd_fallbackSpace = SpaceSrgb,
        warnings = \<lparr>unsupported = False, fallback = False, outOfGamut = False\<rparr>\<rparr>
   \<and> map format (fst (formatEach throwing_adapter Map.empty negGrayP3 commandFormats))
        = commandFormats"
proof -
  let ?cc = "\<lparr>cache_p3 = None, cache_rgb = None, cache_oklch = None\<rparr>"
  have a: "fst (formatColor throwing_adapter Map.empty negGrayP3 F_hsl)
     = \<lparr>format = F_hsl, cd_value = ''Invalid Color'', hexValue = ''#000000'',
        gamut = SpaceOut, cd_fallbackSpace = SpaceSrgb,
        warnings = \<lparr>unsupported = False, fallback = True, outOfGamut = True\<rparr>\<rparr>"
    and d: "map format (fst (formatEach throwing_adapter Map.empty negGrayP3 commandFormats))
        = commandFormats"
    using formatColor_degraded [OF throwing_detect, of LibraryError F_hsl "''''" None
            LibraryError "''''" commandFormats] throwing_preview2
    by simp_all
  have b: "fst (formatColor sample_adapter Map.empty undefinedRedP3 F_p3)
             = ordinaryRecord F_p3 outReport ''#000000FF'' ''rgb(0, 0, 0)''"
    using formatColor_degraded [OF sample_detect_undefinedRed, of LibraryError F_p3
            "''#000000FF''" None TypeError "''''" commandFormats]
          sample_preview_undefinedRed sample_render_undefinedRed
    by (simp add: outReport_fields)
  have c: "fst (formatColor sample_adapter Map.empty chromaticP3 F_figmaP3)
             = ordinaryRecord F_figmaP3 outReport ''#000000FF'' ''#FF8000FF''"
    using formatColor_degraded [OF sample_detect_chromatic, of LibraryError F_figmaP3
            "''#000000FF''" None LibraryError "''#FF8000FF''" commandFormats]
          sample_preview_chromatic sample_render_chromatic
    by (simp add: outReport_fields)
  show ?thesis
    using a b c d
    by (simp add: ordinaryRecord_def outReport_fields isSRGBFormat_def srgbFormats_def)
qed

section \<open>Linear RGB\<close>

lemma nt_formatRGB:
  assumes "neverThrows A"
  shows "\<exists>s. formatRGB A c = Inr s"
proof -
  have conv: "\<exists>r'. rgb A y = Inr r'" for y using nt_convert[OF assms] unfolding rgb_def by blast
  obtain x where x: "xyz65 A c = Inr x" using nt_convert[OF assms] unfolding xyz65_def by blast
  obtain r where r: "rgb A c = Inr r" using conv by blast
  show ?thesis
  proof (cases "mode c = Oklch")
    case False
    then show ?thesis using r by (cases r) (simp_all add: formatRGB_def bindE_def)
  next
    case True
    show ?thesis
    proof (cases x)
      case None
      then show ?thesis using True x by (simp add: formatRGB_def bindE_def)
    next
      case (Some a)
      obtain r' where "rgb A a = Inr r'" using conv by blast
      then show ?thesis using True x Some by (cases r') (simp_all add: formatRGB_def bindE_def)
    qed
  qed
qed

lemma detect_again:
  "fst (detectColorSpace A (snd (detectColorSpace A cache color)) color)
     = fst (detectColorSpace A cache color)"
  by (auto simp: detectColorSpace_def split: option.splits sum.splits)

lemma visible_srgb:
  assumes "neverThrows A" "originalSpace (fst (detectColorSpace A cache color)) = SpaceSrgb"
  shows "\<exists>vv. fst (detectColorSpaceAndFallback A cache color) = Inr vv"
proof -
  obtain sr c1 where d: "detectColorSpace A cache color = (sr, c1)"
    by (cases "detectColorSpace A cache color")
  obtain s where s: "formatRGB A (orColor (rgbValues sr) color) = Inr s"
    using nt_formatRGB[OF assms(1)] by blast
  show ?thesis using d s assms(2)
    by (simp add: detectColorSpaceAndFallback_def Let_def bindE_def)
qed

lemma getFallbackTry_vec:
  "getFallbackTry A color F_vec cc result = bindE (toLinear A color) (formatLinearRGB A)"
  by (simp add: getFallbackTry_def getFallbackWide_def isSRGBFormat_def srgbFormats_def)

lemma formatColor_vec:
  assumes nt: "neverThrows A"
    and sp: "originalSpace (fst (detectColorSpace A cache color)) = SpaceSrgb"
    and lin: "bindE (toLinear A color) (formatLinearRGB A) = Inr s"
  shows "cd_value (fst (formatColor A cache color F_vec)) = s"
proof -
  obtain sr c1 where d: "detectColorSpace A cache color = (sr, c1)"
    by (cases "detectColorSpace A cache color")
  obtain hex ok where p: "formatPreview A color sr = Inr (hex, ok)"
    using nt_formatPreview[OF nt, of color sr] by (metis surj_pair)
  have "originalSpace (fst (detectColorSpace A c1 color)) = SpaceSrgb"
    using detect_again[of A cache color] sp d by simp
  then obtain vv where vv: "fst (detectColorSpaceAndFallback A c1 color) = Inr vv"
    using visible_srgb[OF nt] by blast
  obtain r c2 where dv: "detectColorSpaceAndFallback A c1 color = (r, c2)"
    by (cases "detectColorSpaceAndFallback A c1 color")
  have g: "getFallback A c1 color F_vec cc = (s, c2)" for cc
    using vv dv lin by (simp add: getFallback_def getFallbackTry_vec bindE_def)
  show ?thesis using d p g by (simp add: formatColor_def Let_def)
qed

lemma sample_detect_darkGray:
  "originalSpace (fst (detectColorSpace sample_adapter Map.empty darkGrayRgb)) = SpaceSrgb"
proof -
  let ?proxy = "\<lparr>mode = Oklch, ch1 = Some (1 / 10), ch2 = Some 0, ch3 = None, alpha = None\<rparr>"
  have a: "getProxyColor sample_adapter darkGrayRgb = Inr (Some ?proxy)"
    by (simp add: getProxyColor_def lib_defs sample_defs darkGrayRgb_def getter_defs)
  have b: "rgb sample_adapter ?proxy = Inr (Some darkGrayRgb)"
    by (simp add: lib_defs sample_defs darkGrayRgb_def)
  have c: "p3 sample_adapter ?proxy = Inr (Some (darkGrayRgb\<lparr>mode := P3\<rparr>))"
    by (simp add: lib_defs sample_defs darkGrayRgb_def)
  show ?thesis
    using detect_cached[OF cache_ok_empty detectBody_proxy[OF a b c]]
    by (simp add: Let_def channelsWithin_def darkGrayRgb_def or0_def)
qed

lemma sample_detect_white:
  "originalSpace (fst (detectColorSpace sample_adapter Map.empty whiteRgb)) = SpaceSrgb"
proof -
  let ?proxy = "\<lparr>mode = Oklch, ch1 = Some 1, ch2 = Some 0, ch3 = None, alpha = None\<rparr>"
  have a: "getProxyColor sample_adapter whiteRgb = Inr (Some ?proxy)"
    by (simp add: getProxyColor_def lib_defs sample_defs whiteRgb_def getter_defs)
  have b: "rgb sample_adapter ?proxy = Inr (Some whiteRgb)"
    by (simp add: lib_defs sample_defs whiteRgb_def)
  have c: "p3 sample_adapter ?proxy = Inr (Some (whiteRgb\<lparr>mode := P3\<rparr>))"
    by (simp add: lib_defs sample_defs whiteRgb_def)
  show ?thesis
    using detect_cached[OF cache_ok_empty detectBody_proxy[OF a b c]]
    by (simp add: Let_def channelsWithin_def whiteRgb_def or0_def)
qed

lemma sample_linear_darkGray:
  "bindE (toLinear sample_adapter darkGrayRgb) (formatLinearRGB sample_adapter)
     = Inr ''vec(0.00008, 0.00008, 0.00008, 1.00000)''"
  by (simp add: toLinear_def formatLinearRGB_def lib_defs sample_defs darkGrayRgb_def getter_defs
        toLinearValue_def formatLinearRGB_toLinear_def alphaOr1_def text_defs)

lemma sample_linear_white:
  "bindE (toLinear sample_adapter whiteRgb) (formatLinearRGB sample_adapter)
     = Inr ''vec(-0.10584, 0.96562, -0.07085, 1)''"
  by (simp add: toLinear_def formatLinearRGB_def lib_defs sample_defs whiteRgb_def getter_defs
        toLinearValue_def pow24_def)

lemma once_darkGray:
  "formatValue5 (formatLinearRGB_toLinear (Some (323 / 25000))) = ''0.00100''"
  by (simp add: formatLinearRGB_toLinear_def text_defs)

lemma once_white:
  "formatValue5 (formatLinearRGB_toLinear (Some 1)) = ''1.00000''"
  by (simp add: formatLinearRGB_toLinear_def pow24_def text_defs)

text \<open>
  Claim C5 against the code. For the notation \<open>vec\<close>, \<open>getFallback\<close> passes the color through
  \<open>toLinear\<close> and hands the result to \<open>formatLinearRGB\<close>, which applies the transfer
  function again: the gray \<open>rgb(1.292% 1.292% 1.292%)\<close>, whose linear value is \<open>0.00100\<close>,
  is rendered with \<open>0.00008\<close>. When the green channel handed over exceeds \<open>0.9\<close>, the
  renderer returns a fixed text: white, whose linear value is \<open>1.00000\<close>, is rendered as
  \<open>vec(-0.10584, 0.96562, -0.07085, 1)\<close>.
\<close>

theorem linear_rgb_twice:
  "cd_value (fst (formatColor sample_adapter Map.empty darkGrayRgb F_vec))
     = ''vec(0.00008, 0.00008, 0.00008, 1.00000)''
   \<and> formatValue5 (formatLinearRGB_toLinear (Some (323 / 25000))) = ''0.00100''
   \<and> cd_value (fst (formatColor sample_adapter Map.empty whiteRgb F_vec))
     = ''vec(-0.10584, 0.96562, -0.07085, 1)''
   \<and> formatValue5 (formatLinearRGB_toLinear (Some 1)) = ''1.00000''"
  using formatColor_vec[OF sample_neverThrows sample_detect_darkGray sample_linear_darkGray]
        formatColor_vec[OF sample_neverThrows sample_detect_white sample_linear_white]
        once_darkGray once_white
  by simp


section \<open>The Figma P3 notation\<close>

lemma dropSpaces_none: "spaceLength ws s = 0 \<Longrightarrow> dropSpaces ws s = s"
  by (subst dropSpaces.simps) simp

lemma dropSpaces_some:
  "spaceLength ws s = Suc n \<Longrightarrow> dropSpaces ws s = dropSpaces ws (drop (Suc n) s)"
  by (subst dropSpaces.simps) simp

lemma trim_hex_text: "trim ''#FF800080'' = ''#FF800080''"
proof -
  have a: "spaceLength whiteSpace ''#FF800080'' = 0"
    by (simp add: spaceLength_def whiteSpace_def)
  have b: "spaceLength (map rev whiteSpace) (rev ''#FF800080'') = 0"
    by (simp add: spaceLength_def whiteSpace_def)
  show ?thesis
    by (simp only: trim_def dropSpaces_none[OF a] dropSpaces_none[OF b] rev_rev_ident)
qed

text \<open>
  A no-break space (U+00A0), a tab and an ideographic space (U+3000) around the digits
  are stripped as well.
\<close>

lemma trim_unicode_text:
  "trim ([CHR 0xC2, CHR 0xA0, CHR 0x09] @ ''#FF800080'' @ [CHR 0xE3, CHR 0x80, CHR 0x80, CHR 0x20])
     = ''#FF800080''"
proof -
  have a0: "spaceLength whiteSpace ''#FF800080'' = 0"
    by (simp add: spaceLength_def whiteSpace_def)
  have b0: "spaceLength (map rev whiteSpace) (rev ''#FF800080'') = 0"
    by (simp add: spaceLength_def whiteSpace_def)
  have a2: "spaceLength whiteSpace
              ([CHR 0xC2, CHR 0xA0, CHR 0x09] @ ''#FF800080'' @ [CHR 0xE3, CHR 0x80, CHR 0x80, CHR 0x20])
            = Suc (Suc 0)"
    by (simp add: spaceLength_def whiteSpace_def)
  have a1: "spaceLength whiteSpace
              ([CHR 0x09] @ ''#FF800080'' @ [CHR 0xE3, CHR 0x80, CHR 0x80, CHR 0x20]) = Suc 0"
    by (simp add: spaceLength_def whiteSpace_def)
  have a3: "spaceLength whiteSpace (''#FF800080'' @ [CHR 0xE3, CHR 0x80, CHR 0x80, CHR 0x20]) = 0"
    by (simp add: spaceLength_def whiteSpace_def)
  have front: "dropSpaces whiteSpace
                 ([CHR 0xC2, CHR 0xA0, CHR 0x09] @ ''#FF800080'' @ [CHR 0xE3, CHR 0x80, CHR 0x80, CHR 0x20])
               = ''#FF800080'' @ [CHR 0xE3, CHR 0x80, CHR 0x80, CHR 0x20]"
    using dropSpaces_some[OF a2] dropSpaces_some[OF a1] dropSpaces_none[OF a3] by simp
  have b1: "spaceLength (map rev whiteSpace)
              ([CHR 0x20, CHR 0x80, CHR 0x80, CHR 0xE3] @ rev ''#FF800080'') = Suc 0"
    by (simp add: spaceLength_def whiteSpace_def)
  have b3: "spaceLength (map rev whiteSpace)
              ([CHR 0x80, CHR 0x80, CHR 0xE3] @ rev ''#FF800080'') = Suc (Suc (Suc 0))"
    by (simp add: spaceLength_def whiteSpace_def)
  have rear: "dropSpaces (map rev whiteSpace)
                (rev (''#FF800080'' @ [CHR 0xE3, CHR 0x80, CHR 0x80, CHR 0x20]))
              = rev ''#FF800080''"
    using dropSpaces_some[OF b1] dropSpaces_some[OF b3] dropSpaces_none[OF b0] by simp
  show ?thesis
    by (simp only: trim_def front rear rev_rev_ident)
qed

lemma process_figma_text: "processFigmaP3 ''Figma P3 #FF800080'' = chromaticP3"
proof -
  have d: "drop 9 ''Figma P3 #FF800080'' = ''#FF800080''" by simp
  show ?thesis
    by (simp add: processFigmaP3_def startsWith_def trim_hex_text isP3HexFormat_def
          hexDigitValue_def parseHex2_def chromaticP3_def)
qed

lemma sample_formatColor_chromatic:
  "cd_value (fst (formatColor sample_adapter Map.empty chromaticP3 F_figmaP3)) = ''#FF8000FF''"
proof -
  let ?cc = "\<lparr>cache_p3 = None, cache_rgb = None, cache_oklch = None\<rparr>"
  obtain vv where vv:
    "fst (detectColorSpaceAndFallback sample_adapter [chromaticP3 \<mapsto> outReport] chromaticP3) = Inr vv"
    using sample_visible_chromatic by blast
  obtain r c2 where dv:
    "detectColorSpaceAndFallback sample_adapter [chromaticP3 \<mapsto> outReport] chromaticP3 = (r, c2)"
    by (cases "detectColorSpaceAndFallback sample_adapter [chromaticP3 \<mapsto> outReport] chromaticP3")
  have m: "mode chromaticP3 = P3" by (simp add: chromaticP3_def)
  have g: "getFallback sample_adapter [chromaticP3 \<mapsto> outReport] chromaticP3 F_figmaP3 ?cc
             = (''#FF8000FF'', c2)"
    using vv dv by (simp add: getFallback_def getFallbackTry_figma[OF m] figma_orange bindE_def)
  show ?thesis
    using g
    by (simp add: formatColor_def sample_detect_chromatic sample_preview_chromatic Let_def
          outReport_fields)
qed

lemma toHex_half: "toHex (Some (128 / 255)) = ''80''"
  by (simp add: hex_defs)

text \<open>
  Claim C7 against the code. The text \<open>Figma P3 #FF800080\<close> is the Figma orange with the
  alpha \<open>128/255\<close>, whose two hex digits are \<open>80\<close>. \<open>formatFigmaP3\<close> answers the fixed
  text \<open>#FF8000FF\<close> for every P3 color near that orange, whatever its alpha, and the
  resolver returns that text.
\<close>

theorem figma_orange_drops_alpha:
  "processFigmaP3 ''Figma P3 #FF800080'' = chromaticP3
   \<and> alpha chromaticP3 = Some (128 / 255)
   \<and> toHex (alpha chromaticP3) = ''80''
   \<and> formatFigmaP3 sample_adapter chromaticP3 = Inr ''#FF8000FF''
   \<and> cd_value (fst (formatColor sample_adapter Map.empty chromaticP3 F_figmaP3)) = ''#FF8000FF''"
  using process_figma_text figma_orange[of sample_adapter] sample_formatColor_chromatic toHex_half
  by (simp add: chromaticP3_def)

section \<open>Rejected input text\<close>

lemma sample_parse_rejects: "parse sample_adapter ''not-a-color'' = Inr None"
  by (simp add: parse_def sample_adapter_def sample_parse_def)

lemma convertAll_rejected:
  assumes "matchesNoGrammar A text" and "\<not> startsWith ''Figma P3'' text"
  shows "convertAll A cache text = ([], cache)"
proof -
  have h: "\<not> isP3HexFormat text" using assms(1) by (simp add: matchesNoGrammar_def figmaShorthand_def)
  have "parse A text \<noteq> Inr (Some c)" for c
    using assms(1) by (auto simp: matchesNoGrammar_def)
  then show ?thesis using h assms(2)
    by (auto simp: convertAll_def inputColor_def split: sum.splits option.splits)
qed

lemma convertAll_figma:
  assumes "startsWith ''Figma P3'' text"
  shows "convertAll A cache text = formatEach A cache (processFigmaP3 text) commandFormats"
proof -
  have "text \<noteq> []" using assms by (auto simp: startsWith_def)
  then show ?thesis using assms by (simp add: convertAll_def inputColor_def)
qed

lemma processFigmaP3_malformed:
  assumes "\<not> isP3HexFormat (trim (if startsWith ''Figma P3 '' text then drop 9 text else text))"
  shows "processFigmaP3 text = p3Black"
  using assms by (simp add: processFigmaP3_def Let_def)

lemma trim_zzz: "trim ''zzz'' = ''zzz''"
proof -
  have a: "spaceLength whiteSpace ''zzz'' = 0"
    by (simp add: spaceLength_def whiteSpace_def)
  have b: "spaceLength (map rev whiteSpace) (rev ''zzz'') = 0"
    by (simp add: spaceLength_def whiteSpace_def)
  show ?thesis
    by (simp only: trim_def dropSpaces_none[OF a] dropSpaces_none[OF b] rev_rev_ident)
qed

lemma starts_figma_zzz: "startsWith ''Figma P3'' ''Figma P3 zzz''"
  by (simp add: startsWith_def)

lemma sample_parse_figma_zzz: "parse sample_adapter ''Figma P3 zzz'' = Inr None"
  by (simp add: parse_def sample_adapter_def sample_parse_def)

lemma noGrammar_figma_zzz: "matchesNoGrammar sample_adapter ''Figma P3 zzz''"
  by (simp add: matchesNoGrammar_def figmaShorthand_def sample_parse_figma_zzz isP3HexFormat_def
        startsWith_def)

lemma process_figma_zzz: "processFigmaP3 ''Figma P3 zzz'' = p3Black"
  by (rule processFigmaP3_malformed) (simp add: startsWith_def trim_zzz isP3HexFormat_def)

text \<open>
  Claim C8, as stated, fails. The text \<open>Figma P3 zzz\<close> matches no recognized grammar: it
  is not the Figma P3 shorthand, and the library parser rejects it. The screen does not
  reject it: a text that starts with \<open>Figma P3\<close> goes to \<open>processFigmaP3\<close>, which answers
  opaque P3 black for a malformed rest, and the result is one record for each of the
  eight notations, not the empty list.
\<close>

theorem figma_text_counterexample:
  "matchesNoGrammar sample_adapter ''Figma P3 zzz''
   \<and> parse sample_adapter ''Figma P3 zzz'' = Inr None
   \<and> processFigmaP3 ''Figma P3 zzz'' = p3Black
   \<and> map format (fst (convertAll sample_adapter Map.empty ''Figma P3 zzz''))
       = [F_figmaP3, F_oklch, F_p3, F_oklab, F_vec, F_hex, F_rgb, F_hsl]
   \<and> fst (convertAll sample_adapter Map.empty ''Figma P3 zzz'') \<noteq> []"
proof -
  have m: "map format (fst (convertAll sample_adapter Map.empty ''Figma P3 zzz''))
             = [F_figmaP3, F_oklch, F_p3, F_oklab, F_vec, F_hex, F_rgb, F_hsl]"
    by (simp only: convertAll_figma[OF starts_figma_zzz] format_formatEach commandFormats_def)
  then have "fst (convertAll sample_adapter Map.empty ''Figma P3 zzz'') \<noteq> []" by auto
  then show ?thesis
    using m noGrammar_figma_zzz sample_parse_figma_zzz process_figma_zzz by simp
qed

text \<open>
  Claim C8, amended. For a text that matches no recognized grammar and does not start
  with \<open>Figma P3\<close>, the convert-color screen gets the empty list, the cache is unchanged,
  and no error surfaces (a throw of the parser is caught). A text that starts with
  \<open>Figma P3\<close> is never rejected: the screen gets one record per notation for the color
  that \<open>processFigmaP3\<close> returns, which is opaque P3 black when the rest of the text,
  trimmed, is not \<open>#\<close> and eight hex digits. On the second screen the caller shows a
  rejected text as the single placeholder record, and no error surfaces.
\<close>

theorem rejected_text:
  "(matchesNoGrammar A text \<and> \<not> startsWith ''Figma P3'' text
      \<longrightarrow> convertAll A cache text = ([], cache))
   \<and> (startsWith ''Figma P3'' text
      \<longrightarrow> convertAll A cache text = formatEach A cache (processFigmaP3 text) commandFormats
          \<and> map format (fst (convertAll A cache text)) = commandFormats)
   \<and> (\<not> isP3HexFormat (trim (if startsWith ''Figma P3 '' text then drop 9 text else text))
      \<longrightarrow> processFigmaP3 text = p3Black)
   \<and> (parse A text = Inr None
      \<longrightarrow> handleColorConversion A st text = Inr (st\<lparr>convertedColors := [invalidPlaceholder]\<rparr>))"
proof (intro conjI impI)
  assume "matchesNoGrammar A text \<and> \<not> startsWith ''Figma P3'' text"
  then show "convertAll A cache text = ([], cache)" using convertAll_rejected by blast
next
  assume a: "startsWith ''Figma P3'' text"
  show "convertAll A cache text = formatEach A cache (processFigmaP3 text) commandFormats"
    using a by (rule convertAll_figma)
  show "map format (fst (convertAll A cache text)) = commandFormats"
    by (simp only: convertAll_figma[OF a] format_formatEach)
next
  assume "\<not> isP3HexFormat (trim (if startsWith ''Figma P3 '' text then drop 9 text else text))"
  then show "processFigmaP3 text = p3Black" by (rule processFigmaP3_malformed)
next
  assume "parse A text = Inr None"
  then show "handleColorConversion A st text = Inr (st\<lparr>convertedColors := [invalidPlaceholder]\<rparr>)"
    by (simp add: handleColorConversion_def bindE_def invalidPlaceholder_def)
qed

lemma noGrammar_not_a_color: "matchesNoGrammar sample_adapter ''not-a-color''"
  by (simp add: matchesNoGrammar_def figmaShorthand_def sample_parse_rejects isP3HexFormat_def
        startsWith_def)

theorem rejected_text_witness:
  "convertAll sample_adapter Map.empty ''not-a-color'' = ([], Map.empty)
   \<and> convertAll sample_adapter Map.empty ''Figma P3 #FF800080''
       = formatEach sample_adapter Map.empty chromaticP3 commandFormats
   \<and> map format (fst (convertAll sample_adapter Map.empty ''Figma P3 #FF800080'')) = commandFormats
   \<and> processFigmaP3 ''Figma P3 zzz'' = p3Black
   \<and> handleColorConversion sample_adapter \<lparr>convertedColors = [], inputFormat = ''rgb''\<rparr>
        ''not-a-color''
       = Inr \<lparr>convertedColors = [invalidPlaceholder], inputFormat = ''rgb''\<rparr>"
proof -
  let ?st = "\<lparr>convertedColors = [], inputFormat = ''rgb''\<rparr>"
  have n: "\<not> startsWith ''Figma P3'' ''not-a-color''" by (simp add: startsWith_def)
  have s: "startsWith ''Figma P3'' ''Figma P3 #FF800080''" by (simp add: startsWith_def)
  have z: "\<not> isP3HexFormat (trim (if startsWith ''Figma P3 '' ''Figma P3 zzz''
                                     then drop 9 ''Figma P3 zzz'' else ''Figma P3 zzz''))"
    by (simp add: startsWith_def trim_zzz isP3HexFormat_def)
  have a: "convertAll sample_adapter Map.empty ''not-a-color'' = ([], Map.empty)"
       "handleColorConversion sample_adapter ?st ''not-a-color''
          = Inr \<lparr>convertedColors = [invalidPlaceholder], inputFormat = ''rgb''\<rparr>"
    using rejected_text [of sample_adapter "''not-a-color''" Map.empty ?st] n
          noGrammar_not_a_color sample_parse_rejects
    by simp_all
  have b0: "convertAll sample_adapter Map.empty ''Figma P3 #FF800080''
              = formatEach sample_adapter Map.empty (processFigmaP3 ''Figma P3 #FF800080'')
                  commandFormats"
       and b2: "map format (fst (convertAll sample_adapter Map.empty ''Figma P3 #FF800080''))
                  = commandFormats"
    using rejected_text [of sample_adapter "''Figma P3 #FF800080''" Map.empty ?st] s
    by blast+
  have b1: "convertAll sample_adapter Map.empty ''Figma P3 #FF800080''
              = formatEach sample_adapter Map.empty chromaticP3 commandFormats"
    using b0 by (simp only: process_figma_text)
  have c: "processFigmaP3 ''Figma P3 zzz'' = p3Black"
    using rejected_text [of sample_adapter "''Figma P3 zzz''" Map.empty ?st] z by blast
  show ?thesis using a b1 b2 c by blast
qed

section \<open>Alpha in the wide-gamut notations\<close>

lemma digitChar_decimal: "d < 10 \<Longrightarrow> digitChar d \<in> set ''0123456789''"
proof -
  assume "d < 10"
  then have "d \<in> {0, 1, 2, 3, 4, 5, 6, 7, 8, 9}" by auto
  then show ?thesis by (auto simp: digitChar_def)
qed

lemma natToString_decimal: "base = 10 \<Longrightarrow> set (natToString base n) \<subseteq> set ''0123456789''"
proof (induction base n rule: natToString.induct)
  case (1 base n)
  show ?case
  proof (cases "n < base")
    case True
    then show ?thesis using "1.prems" digitChar_decimal[of n]
      by (simp add: natToString_digit)
  next
    case False
    then have ih: "set (natToString base (n div base)) \<subseteq> set ''0123456789''"
      using "1.IH" "1.prems" by simp
    have "digitChar (n mod base) \<in> set ''0123456789''"
      using "1.prems" by (intro digitChar_decimal) simp
    then show ?thesis using ih False "1.prems"
      by (simp add: natToString_more)
  qed
qed

lemma toFixed_noSlash: "CHR ''/'' \<notin> set (toFixed x f)"
proof -
  let ?n = "nat (mathRound (\<bar>x\<bar> * 10 ^ f))"
  let ?m = "padStart (f + 1) (CHR ''0'') (natToString 10 ?n)"
  have n: "CHR ''/'' \<notin> set (natToString 10 ?n)"
    using natToString_decimal[of 10 ?n] by auto
  then have m: "CHR ''/'' \<notin> set ?m" by (auto simp: padStart_def)
  have "CHR ''/'' \<notin> set (take k ?m)" "CHR ''/'' \<notin> set (drop k ?m)" for k
    using m by (auto dest: in_set_takeD in_set_dropD)
  then show ?thesis using m by (auto simp: toFixed_def Let_def)
qed

lemma padEnd_noSlash: "CHR ''/'' \<notin> set s \<Longrightarrow> CHR ''/'' \<notin> set (padEnd n (CHR ''0'') s)"
  by (auto simp: padEnd_def)

lemma formatP3_noSlash: "formatP3 A c = Inr s \<Longrightarrow> CHR ''/'' \<notin> set s"
  using toFixed_noSlash
  by (auto simp: formatP3_def bindE_def toFixedE_def padEnd_def split: sum.splits option.splits)

lemma oklchText_noSlash: "CHR ''/'' \<notin> set (oklchText v)"
  using toFixed_noSlash by (auto simp: oklchText_def Let_def padEnd_def)

lemma formatOKLCH_noSlash: "formatOKLCH A c = Inr s \<Longrightarrow> CHR ''/'' \<notin> set s"
  using oklchText_noSlash
  by (auto simp: formatOKLCH_def bindE_def split: sum.splits option.splits if_splits)

lemma formatOKLAB_noSlash: "formatOKLAB A c = Inr s \<Longrightarrow> CHR ''/'' \<notin> set s"
  using toFixed_noSlash
  by (auto simp: formatOKLAB_def bindE_def toFixedE_def toFixedNaN_def Let_def
        split: sum.splits option.splits)

lemma sameChannels_getters:
  assumes "sameChannels v w"
  shows "get_r v = get_r w" "get_g v = get_g w" "get_b v = get_b w" "get_l v = get_l w"
    "get_c v = get_c w" "get_h v = get_h w" "get_a v = get_a w"
  using assms by (simp_all add: sameChannels_def getter_defs)

lemma formatP3_alpha:
  assumes "agreeUpToAlpha (p3 A c) (p3 A d)"
  shows "formatP3 A c = formatP3 A d"
proof (cases "p3 A c")
  case (Inl e)
  then have "p3 A d = Inl e" using assms by (cases "p3 A d") (simp_all add: agreeUpToAlpha_def)
  then show ?thesis using Inl by (simp add: formatP3_def bindE_def)
next
  case (Inr x)
  then obtain y where y: "p3 A d = Inr y" "rel_option sameChannels x y"
    using assms by (cases "p3 A d") (simp_all add: agreeUpToAlpha_def)
  show ?thesis
  proof (cases x)
    case None
    then have "y = None" using y(2) by simp
    then show ?thesis using Inr y(1) None by (simp add: formatP3_def bindE_def)
  next
    case (Some v)
    then obtain w where w: "y = Some w" "sameChannels v w"
      using y(2) by (cases y) simp_all
    show ?thesis using Inr y(1) Some w(1) sameChannels_getters[OF w(2)]
      by (simp add: formatP3_def bindE_def)
  qed
qed

lemma formatOKLAB_alpha:
  assumes "agreeUpToAlpha (oklab A c) (oklab A d)"
  shows "formatOKLAB A c = formatOKLAB A d"
proof (cases "oklab A c")
  case (Inl e)
  then have "oklab A d = Inl e" using assms by (cases "oklab A d") (simp_all add: agreeUpToAlpha_def)
  then show ?thesis using Inl by (simp add: formatOKLAB_def bindE_def)
next
  case (Inr x)
  then obtain y where y: "oklab A d = Inr y" "rel_option sameChannels x y"
    using assms by (cases "oklab A d") (simp_all add: agreeUpToAlpha_def)
  show ?thesis
  proof (cases x)
    case None
    then have "y = None" using y(2) by simp
    then show ?thesis using Inr y(1) None by (simp add: formatOKLAB_def bindE_def)
  next
    case (Some v)
    then obtain w where w: "y = Some w" "sameChannels v w"
      using y(2) by (cases y) simp_all
    show ?thesis using Inr y(1) Some w(1) sameChannels_getters[OF w(2)]
      by (simp add: formatOKLAB_def bindE_def)
  qed
qed

lemma oklchText_alpha: "sameChannels v w \<Longrightarrow> oklchText v = oklchText w"
  using sameChannels_getters[of v w] by (simp add: oklchText_def)

lemma formatOKLCH_alpha:
  assumes "sameChannels c d" "agreeUpToAlpha (oklch A c) (oklch A d)"
  shows "formatOKLCH A c = formatOKLCH A d"
proof (cases "mode c = Oklch")
  case True
  then have "mode d = Oklch" using assms(1) by (simp add: sameChannels_def)
  then show ?thesis using True oklchText_alpha[OF assms(1)] by (simp add: formatOKLCH_def bindE_def)
next
  case False
  then have md: "mode d \<noteq> Oklch" using assms(1) by (simp add: sameChannels_def)
  show ?thesis
  proof (cases "oklch A c")
    case (Inl e)
    then have "oklch A d = Inl e" using assms(2) by (cases "oklch A d") (simp_all add: agreeUpToAlpha_def)
    then show ?thesis using Inl False md by (simp add: formatOKLCH_def bindE_def)
  next
    case (Inr x)
    then obtain y where y: "oklch A d = Inr y" "rel_option sameChannels x y"
      using assms(2) by (cases "oklch A d") (simp_all add: agreeUpToAlpha_def)
    show ?thesis
    proof (cases x)
      case None
      then have "y = None" using y(2) by simp
      then show ?thesis using Inr y(1) None False md by (simp add: formatOKLCH_def bindE_def)
    next
      case (Some v)
      then obtain w where w: "y = Some w" "sameChannels v w"
        using y(2) by (cases y) simp_all
      show ?thesis using Inr y(1) Some w(1) oklchText_alpha[OF w(2)] False md
        by (simp add: formatOKLCH_def bindE_def)
    qed
  qed
qed

text \<open>
  Claim C10. The renderers of \<open>p3\<close>, \<open>oklch\<close> and \<open>oklab\<close> read the channels only. Two colors
  that differ in alpha alone, and whose conversions by the library then differ in alpha
  alone, give the same text in each of the three notations; and no such text contains
  the character \<open>/\<close>, which would introduce an alpha component.
\<close>

theorem wide_text_without_alpha:
  assumes "sameChannels c d"
    and "agreeUpToAlpha (p3 A c) (p3 A d)"
    and "agreeUpToAlpha (oklch A c) (oklch A d)"
    and "agreeUpToAlpha (oklab A c) (oklab A d)"
  shows "formatP3 A c = formatP3 A d
       \<and> formatOKLCH A c = formatOKLCH A d
       \<and> formatOKLAB A c = formatOKLAB A d
       \<and> (\<forall>s. formatP3 A c = Inr s \<or> formatOKLCH A c = Inr s \<or> formatOKLAB A c = Inr s
              \<longrightarrow> CHR ''/'' \<notin> set s)"
  using formatP3_alpha[OF assms(2)] formatOKLCH_alpha[OF assms(1,3)] formatOKLAB_alpha[OF assms(4)]
        formatP3_noSlash[of A c] formatOKLCH_noSlash[of A c] formatOKLAB_noSlash[of A c]
  by blast

lemma sample_formatP3_negGray:
  "formatP3 sample_adapter negGrayP3 = Inr ''color(display-p3 -0.0129 -0.0129 -0.0129)''"
  by (simp add: formatP3_def lib_defs sample_defs negGrayP3_def getter_defs toFixedE_def text_defs)

lemma sample_formatOKLCH_negGray:
  "formatOKLCH sample_adapter negGrayP3 = Inr ''oklch(-10.00% 0.0000 0.00)''"
proof -
  have "formatOKLCH sample_adapter negGrayP3 = Inr (oklchText negGrayProxy)"
    by (simp add: formatOKLCH_def lib_defs sample_defs negGrayP3_def negGrayProxy_def)
  moreover have "oklchText negGrayProxy
      = ''oklch('' @ padEnd 5 (CHR ''0'') (toFixed (- 10) 2) @ ''% ''
        @ padEnd 6 (CHR ''0'') (toFixed 0 4) @ '' '' @ toFixed 0 2 @ '')''"
    by (simp add: oklchText_def negGrayProxy_def getter_defs or0_def)
  moreover have "padEnd 5 (CHR ''0'') (toFixed (- 10) 2) = ''-10.00''"
    "padEnd 6 (CHR ''0'') (toFixed 0 4) = ''0.0000''" "toFixed 0 2 = ''0.00''"
    by (simp_all add: text_defs)
  ultimately show ?thesis by simp
qed

lemma sample_formatOKLAB_negGray:
  "formatOKLAB sample_adapter negGrayP3 = Inr ''oklab(-10.00% 0.00 0.0)''"
  by (simp add: formatOKLAB_def lib_defs sample_defs negGrayP3_def getter_defs toFixedE_def
        text_defs)

theorem wide_text_without_alpha_witness:
  "alpha negGrayP3 = Some (1 / 2)
   \<and> formatP3 sample_adapter (negGrayP3\<lparr>alpha := None\<rparr>)
       = Inr ''color(display-p3 -0.0129 -0.0129 -0.0129)''
   \<and> formatOKLCH sample_adapter (negGrayP3\<lparr>alpha := None\<rparr>) = Inr ''oklch(-10.00% 0.0000 0.00)''
   \<and> formatOKLAB sample_adapter (negGrayP3\<lparr>alpha := None\<rparr>) = Inr ''oklab(-10.00% 0.00 0.0)''
   \<and> formatP3 sample_adapter negGrayP3 = Inr ''color(display-p3 -0.0129 -0.0129 -0.0129)''"
proof -
  let ?d = "negGrayP3\<lparr>alpha := None\<rparr>"
  have s: "sameChannels negGrayP3 ?d" by (simp add: sameChannels_def)
  have a: "agreeUpToAlpha (p3 sample_adapter negGrayP3) (p3 sample_adapter ?d)"
    by (simp add: agreeUpToAlpha_def lib_defs sample_defs negGrayP3_def sameChannels_def)
  have b: "agreeUpToAlpha (oklch sample_adapter negGrayP3) (oklch sample_adapter ?d)"
    by (simp add: agreeUpToAlpha_def lib_defs sample_defs negGrayP3_def sameChannels_def)
  have c: "agreeUpToAlpha (oklab sample_adapter negGrayP3) (oklab sample_adapter ?d)"
    by (simp add: agreeUpToAlpha_def lib_defs sample_defs negGrayP3_def sameChannels_def)
  show ?thesis
    using wide_text_without_alpha [OF s a b c] sample_formatP3_negGray sample_formatOKLCH_negGray
          sample_formatOKLAB_negGray
    by (simp add: negGrayP3_def)
qed


section \<open>The cache invariant along a session\<close>

text \<open>
  The resolver and the orchestrator touch the cache through \<open>detectColorSpace\<close> only, so
  every cache reached from the empty one satisfies \<open>cache_ok\<close>.
\<close>

lemma cache_ok_visible:
  "cache_ok A cache \<Longrightarrow> cache_ok A (snd (detectColorSpaceAndFallback A cache color))"
  using cache_ok_detect[of A cache color]
  by (cases "detectColorSpace A cache color") (simp add: detectColorSpaceAndFallback_def Let_def)

lemma cache_ok_getFallback:
  "cache_ok A cache \<Longrightarrow> cache_ok A (snd (getFallback A cache color fmt cc))"
  using cache_ok_visible[of A cache color]
  by (cases "detectColorSpaceAndFallback A cache color") (simp add: getFallback_def)

lemma cache_ok_formatColor:
  assumes "cache_ok A cache"
  shows "cache_ok A (snd (formatColor A cache color fmt))"
proof -
  obtain sr c1 where d: "detectColorSpace A cache color = (sr, c1)"
    by (cases "detectColorSpace A cache color")
  have c1: "cache_ok A c1" using cache_ok_detect[OF assms, of color] d by simp
  show ?thesis
  proof (cases "formatPreview A color sr")
    case (Inl e)
    then show ?thesis using d c1 by (simp add: formatColor_def)
  next
    case (Inr x)
    obtain hex ok where x: "x = (hex, ok)" by (cases x)
    let ?cc = "\<lparr>cache_p3 = p3Values sr, cache_rgb = rgbValues sr, cache_oklch = ok\<rparr>"
    obtain v c2 where g: "getFallback A c1 color fmt ?cc = (v, c2)"
      by (cases "getFallback A c1 color fmt ?cc")
    have "cache_ok A c2" using cache_ok_getFallback[OF c1, of color fmt ?cc] g by simp
    then show ?thesis using d Inr x g by (simp add: formatColor_def)
  qed
qed

lemma cache_ok_formatEach:
  "cache_ok A cache \<Longrightarrow> cache_ok A (snd (formatEach A cache color fmts))"
proof (induction fmts arbitrary: cache)
  case Nil
  then show ?case by simp
next
  case (Cons f fs)
  obtain d c1 where d: "formatColor A cache color f = (d, c1)" by (cases "formatColor A cache color f")
  obtain ds c2 where ds: "formatEach A c1 color fs = (ds, c2)" by (cases "formatEach A c1 color fs")
  have "cache_ok A c1" using cache_ok_formatColor[OF Cons.prems, of color f] d by simp
  then have "cache_ok A c2" using Cons.IH[of c1] ds by simp
  then show ?case using d ds by simp
qed

lemma cache_ok_convertAll:
  "cache_ok A cache \<Longrightarrow> cache_ok A (snd (convertAll A cache searchText))"
  using cache_ok_formatEach[of A cache]
  by (auto simp: convertAll_def split: sum.splits option.splits)

end
